theory Spec2Isabelle
  imports Main
begin

section \<open>JSON values as the handlers of \<open>api/v2.js\<close> see them\<close>

text \<open>
  A frame is parsed with \<open>JSON.parse\<close>; the handlers then test values for truthiness
  (\<open>!x\<close>, \<open>x || d\<close>), for nullishness (\<open>x ?? d\<close>) and for their type
  (\<open>typeof\<close>, \<open>Array.isArray\<close>). Numbers are the integer-valued ones (milliseconds, bytes,
  test ids), on which the arithmetic of the handlers (\<open>++\<close>, \<open>+=\<close>, comparisons) is exact.
  An object is its list of own properties, the binding that \<open>JSON.parse\<close> keeps coming first.
\<close>

datatype jsval =
    JUndefined
  | JNull
  | JBool bool
  | JNum int
  | JStr string
  | JArr "jsval list"
  | JObj "(string \<times> jsval) list"

fun truthy :: "jsval \<Rightarrow> bool" where
  "truthy JUndefined = False"
| "truthy JNull = False"
| "truthy (JBool b) = b"
| "truthy (JNum n) = (n \<noteq> 0)"
| "truthy (JStr s) = (s \<noteq> [])"
| "truthy (JArr xs) = True"
| "truthy (JObj kvs) = True"

text \<open>\<open>a || b\<close> and \<open>a ?? b\<close>.\<close>

definition js_or :: "jsval \<Rightarrow> jsval \<Rightarrow> jsval" where
  "js_or a b = (if truthy a then a else b)"

definition nullish_or :: "jsval \<Rightarrow> jsval \<Rightarrow> jsval" where
  "nullish_or a b = (if a = JUndefined \<or> a = JNull then b else a)"

fun is_string :: "jsval \<Rightarrow> bool" where
  "is_string (JStr s) = True"
| "is_string v = False"

fun is_number :: "jsval \<Rightarrow> bool" where
  "is_number (JNum n) = True"
| "is_number v = False"

fun is_array :: "jsval \<Rightarrow> bool" where
  "is_array (JArr xs) = True"
| "is_array v = False"

text \<open>
  \<open>v.k\<close> for a receiver that is neither \<open>null\<close> nor \<open>undefined\<close> and a key that no
  prototype defines (the handlers read \<open>type\<close>, \<open>files\<close>, \<open>content\<close>, \<open>test_id\<close> and the
  like): an own property of an object, \<open>undefined\<close> otherwise. Reading a property of
  \<open>null\<close> throws; the callers below test for it first.
\<close>

fun jsprop :: "jsval \<Rightarrow> string \<Rightarrow> jsval" where
  "jsprop (JObj kvs) k = (case map_of kvs k of None \<Rightarrow> JUndefined | Some v \<Rightarrow> v)"
| "jsprop v k = JUndefined"

text \<open>Decimal rendering of a number inside a template string.\<close>

fun show_nat :: "nat \<Rightarrow> string" where
  "show_nat n =
     (if n < 10 then [''0123456789'' ! n]
      else show_nat (n div 10) @ [''0123456789'' ! (n mod 10)])"

declare show_nat.simps [simp del]

definition show_int :: "int \<Rightarrow> string" where
  "show_int i = (if i < 0 then CHR ''-'' # show_nat (nat (- i)) else show_nat (nat i))"

text \<open>
  \<open>`${v}`\<close>: the string conversion of a value. An array joins the conversions of its
  elements with commas, \<open>null\<close> and \<open>undefined\<close> elements giving the empty string.
  A number is rendered by its decimal digits, as JavaScript does below \<open>10^21\<close>, which
  covers the integers modelled here.

  The conversion of an object calls its \<open>toString\<close>. A parsed object that has a
  property of that name of its own hides the method of the prototype behind a value that
  cannot be called, and the conversion throws a TypeError; so does the conversion of an
  array with such an element. \<open>js_string\<close> is the result where the conversion does
  not throw.
\<close>

fun string_conversion_throws :: "jsval \<Rightarrow> bool" where
  "string_conversion_throws (JObj kvs) = (map_of kvs ''toString'' \<noteq> None)"
| "string_conversion_throws (JArr xs) = (\<exists>x\<in>set xs. string_conversion_throws x)"
| "string_conversion_throws v = False"

fun join_comma :: "string list \<Rightarrow> string" where
  "join_comma [] = []"
| "join_comma [s] = s"
| "join_comma (s # t # ss) = s @ '','' @ join_comma (t # ss)"

fun js_string :: "jsval \<Rightarrow> string" where
  "js_string JUndefined = ''undefined''"
| "js_string JNull = ''null''"
| "js_string (JBool b) = (if b then ''true'' else ''false'')"
| "js_string (JNum n) = show_int n"
| "js_string (JStr s) = s"
| "js_string (JArr xs) =
     join_comma (map (\<lambda>x. if x = JNull \<or> x = JUndefined then [] else js_string x) xs)"
| "js_string (JObj kvs) = ''[object Object]''"

section \<open>The runtime registry and the job, as \<open>get_job\<close> uses them\<close>

text \<open>
  The registry (\<open>../runtime\<close>) and the class \<open>Job\<close> (\<open>../job\<close>) are outside the
  sources at hand. A runtime is the record of the fields that \<open>get_job\<close> and the judge
  handler read; the registry is a parameter, a function from language and version to the
  runtime found, if any.
\<close>

record runtime =
  rt_language :: string
  rt_version_raw :: string
  rt_compiled :: bool
  rt_timeouts_compile :: int
  rt_timeouts_run :: int
  rt_cpu_times_compile :: int
  rt_cpu_times_run :: int
  rt_memory_limits_compile :: int
  rt_memory_limits_run :: int

type_synonym registry = "string \<Rightarrow> string \<Rightarrow> runtime option"

datatype constraint = Memory_limit | Timeout | Cpu_time

datatype stage = Compile | Run

fun constraint_str :: "constraint \<Rightarrow> string" where
  "constraint_str Memory_limit = ''memory_limit''"
| "constraint_str Timeout = ''timeout''"
| "constraint_str Cpu_time = ''cpu_time''"

fun stage_str :: "stage \<Rightarrow> string" where
  "stage_str Compile = ''compile''"
| "stage_str Run = ''run''"

text \<open>\<open>`${type}_${constraint}`\<close> and \<open>rt[`${constraint}s`][type]\<close>.\<close>

definition constraint_name :: "constraint \<Rightarrow> stage \<Rightarrow> string" where
  "constraint_name c t = stage_str t @ ''_'' @ constraint_str c"

fun configured_limit :: "runtime \<Rightarrow> constraint \<Rightarrow> stage \<Rightarrow> int" where
  "configured_limit rt Memory_limit Compile = rt_memory_limits_compile rt"
| "configured_limit rt Memory_limit Run = rt_memory_limits_run rt"
| "configured_limit rt Timeout Compile = rt_timeouts_compile rt"
| "configured_limit rt Timeout Run = rt_timeouts_run rt"
| "configured_limit rt Cpu_time Compile = rt_cpu_times_compile rt"
| "configured_limit rt Cpu_time Run = rt_cpu_times_run rt"

text \<open>The argument of \<open>new Job({...})\<close>.\<close>

record job =
  job_runtime :: runtime
  job_args :: jsval
  job_stdin :: jsval
  job_files :: "jsval list"
  job_timeouts_run :: jsval
  job_timeouts_compile :: jsval
  job_cpu_times_run :: jsval
  job_cpu_times_compile :: jsval
  job_memory_limits_run :: jsval
  job_memory_limits_compile :: jsval

section \<open>\<open>get_job\<close>\<close>

text \<open>
  The loop over \<open>files.entries()\<close>. An element that is \<open>null\<close> makes \<open>file.content\<close>
  throw inside the promise's executor, which rejects the promise with the TypeError.
  The result is the message of the rejection, if any.
\<close>

fun check_files :: "nat \<Rightarrow> jsval list \<Rightarrow> string option" where
  "check_files i [] = None"
| "check_files i (file # files) =
     (if file = JNull \<or> file = JUndefined
        then Some (''Cannot read properties of '' @ js_string file @ '' (reading 'content')'')
      else if \<not> is_string (jsprop file ''content'')
        then Some (''files['' @ show_nat i @ ''].content is required as a string'')
      else check_files (Suc i) files)"

text \<open>\<open>files.some(file => !file.encoding || file.encoding === 'utf8')\<close>\<close>

definition some_utf8 :: "jsval list \<Rightarrow> bool" where
  "some_utf8 files =
     list_ex (\<lambda>file. \<not> truthy (jsprop file ''encoding'') \<or> jsprop file ''encoding'' = JStr ''utf8'')
       files"

text \<open>One round of the inner loop over the limits: \<open>None\<close> stands for \<open>continue\<close>.\<close>

definition check_constraint :: "runtime \<Rightarrow> jsval \<Rightarrow> constraint \<times> stage \<Rightarrow> string option" where
  "check_constraint rt body ct =
     (let constraint_value = jsprop body (constraint_name (fst ct) (snd ct));
          configured = configured_limit rt (fst ct) (snd ct)
      in if \<not> truthy constraint_value then None
         else (case constraint_value of
                 JNum n \<Rightarrow>
                   if configured \<le> 0 then None
                   else if n > configured
                     then Some (constraint_name (fst ct) (snd ct)
                                @ '' cannot exceed the configured limit of '' @ show_int configured)
                   else if n < 0
                     then Some (constraint_name (fst ct) (snd ct) @ '' must be non-negative'')
                   else None
               | _ \<Rightarrow>
                   Some (''If specified, '' @ constraint_name (fst ct) (snd ct)
                         @ '' must be a number'')))"

fun check_constraints :: "runtime \<Rightarrow> jsval \<Rightarrow> (constraint \<times> stage) list \<Rightarrow> string option" where
  "check_constraints rt body [] = None"
| "check_constraints rt body (ct # cts) =
     (case check_constraint rt body ct of
        Some m \<Rightarrow> Some m
      | None \<Rightarrow> check_constraints rt body cts)"

text \<open>
  The order of the two nested \<open>for\<close> loops: the constraint outside, the stage inside.
\<close>

definition constraint_order :: "(constraint \<times> stage) list" where
  "constraint_order = List.product [Memory_limit, Timeout, Cpu_time] [Compile, Run]"

text \<open>
  \<open>get_job body\<close>: \<open>Inl m\<close> is the promise rejected with an object whose \<open>message\<close> is
  \<open>m\<close>, \<open>Inr j\<close> the promise resolved with the new job. \<open>body\<close> is an object here: the
  callers have read its \<open>type\<close>.
\<close>

definition get_job :: "registry \<Rightarrow> jsval \<Rightarrow> string + job" where
  "get_job reg body =
     (let language = jsprop body ''language'';
          version = jsprop body ''version'';
          files = jsprop body ''files''
      in if \<not> truthy language \<or> \<not> is_string language
           then Inl ''language is required as a string''
         else if \<not> truthy version \<or> \<not> is_string version
           then Inl ''version is required as a string''
         else (case files of
            JArr fs \<Rightarrow>
              (case check_files 0 fs of
                 Some m \<Rightarrow> Inl m
               | None \<Rightarrow>
                  (case reg (js_string language) (js_string version) of
                     None \<Rightarrow>
                       Inl (js_string language @ ''-'' @ js_string version
                            @ '' runtime is unknown'')
                   | Some rt \<Rightarrow>
                       if rt_language rt \<noteq> ''file'' \<and> \<not> some_utf8 fs
                         then Inl ''files must include at least one utf8 encoded file''
                       else (case check_constraints rt body constraint_order of
                          Some m \<Rightarrow> Inl m
                        | None \<Rightarrow> Inr \<lparr>
                            job_runtime = rt,
                            job_args = nullish_or (jsprop body ''args'') (JArr []),
                            job_stdin = nullish_or (jsprop body ''stdin'') (JStr []),
                            job_files = fs,
                            job_timeouts_run =
                              nullish_or (jsprop body ''run_timeout'') (JNum (rt_timeouts_run rt)),
                            job_timeouts_compile =
                              nullish_or (jsprop body ''compile_timeout'')
                                (JNum (rt_timeouts_compile rt)),
                            job_cpu_times_run =
                              nullish_or (jsprop body ''run_cpu_time'') (JNum (rt_cpu_times_run rt)),
                            job_cpu_times_compile =
                              nullish_or (jsprop body ''compile_cpu_time'')
                                (JNum (rt_cpu_times_compile rt)),
                            job_memory_limits_run =
                              nullish_or (jsprop body ''run_memory_limit'')
                                (JNum (rt_memory_limits_run rt)),
                            job_memory_limits_compile =
                              nullish_or (jsprop body ''compile_memory_limit'')
                                (JNum (rt_memory_limits_compile rt)) \<rparr>)))
          | _ \<Rightarrow> Inl ''files is required as an array''))"

section \<open>The judge session: state, effects and the calls into the job\<close>

text \<open>
  The methods of the job (\<open>prime\<close>, \<open>compileOnly\<close>, \<open>runTest\<close>, \<open>runBatched\<close>,
  \<open>cleanup\<close>) are awaited by the handler; each either resolves with a value or throws an
  error, of which the handler reads the \<open>message\<close>.
\<close>

datatype 'a outcome = Resolves 'a | Throws string

text \<open>\<open>compileResult\<close>: \<open>success\<close> and the optional \<open>compile\<close> stage record.\<close>

record compile_stage =
  cs_wall_time :: jsval
  cs_stdout :: jsval
  cs_stderr :: jsval
  cs_message :: jsval

record compile_result =
  cr_success :: bool
  cr_compile :: "compile_stage option"

text \<open>
  \<open>testResult\<close> and \<open>batchResult\<close>. The wall times are added to \<open>totalTime\<close>; they are
  integers, or absent (\<open>None\<close>), which \<open>|| 0\<close> in the handler provides for.
\<close>

record test_result =
  tr_stdout :: jsval
  tr_stderr :: jsval
  tr_code :: jsval
  tr_signal :: jsval
  tr_message :: jsval
  tr_status :: jsval
  tr_wall_time :: "int option"
  tr_cpu_time :: jsval
  tr_memory :: jsval

record batch_result =
  br_results :: jsval
  br_total_time :: "int option"
  br_total_cpu_time :: jsval
  br_memory :: jsval
  br_success :: jsval
  br_stderr :: jsval

text \<open>\<open>x || 0\<close> for such a time.\<close>

definition time_or_0 :: "int option \<Rightarrow> int" where
  "time_or_0 t = (case t of None \<Rightarrow> 0 | Some n \<Rightarrow> n)"

type_synonym box = nat

text \<open>The invocations of the job's methods, with their arguments.\<close>

datatype jobcall =
    Prime
  | CompileOnly box
  | RunTest jsval jsval jsval jsval
  | RunBatched jsval jsval jsval jsval
  | Cleanup

text \<open>
  What the job does is a parameter of the model. An outcome may depend on the number of
  calls made before it, so that a method may resolve at one call and throw at the next.
\<close>

record world =
  lookup_runtime :: registry
  prime_outcome :: "box outcome"
  compile_outcome :: "compile_result outcome"
  runTest_outcome :: "nat \<Rightarrow> jsval \<Rightarrow> jsval \<Rightarrow> jsval \<Rightarrow> jsval \<Rightarrow> test_result outcome"
  runBatched_outcome :: "nat \<Rightarrow> jsval \<Rightarrow> jsval \<Rightarrow> jsval \<Rightarrow> jsval \<Rightarrow> batch_result outcome"
  cleanup_outcome :: "nat \<Rightarrow> unit outcome"

text \<open>
  The messages of \<open>sendMessage(type, data)\<close>, one constructor for each \<open>type\<close>:
  \<open>error\<close> (with the \<open>test_id\<close>, where the handler gives one), \<open>ready\<close>, \<open>compiled\<close>
  (success, time, stdout, stderr, error), \<open>result\<close> (the \<open>test_id\<close> and the fields taken
  from \<open>testResult\<close>), \<open>batch_result\<close> (\<open>total_tests\<close> and the fields taken from
  \<open>batchResult\<close>) and \<open>done\<close> (\<open>total_tests\<close>, \<open>total_time\<close>).
\<close>

datatype outmsg =
    Error_msg "jsval option" string
  | Ready string string bool
  | Compiled bool jsval jsval jsval jsval
  | Result jsval test_result
  | Batch_result int batch_result
  | Done int int

datatype logline =
    Log_init string
  | Log_run_test string
  | Log_run_batch string
  | Log_cleanup_on_close string

text \<open>
  What a connection does to the outside, in the order in which it does it: a message
  handed to \<open>ws.send\<close>, a call of \<open>ws.close\<close>, a call of a method of the job, a
  line given to \<open>logger.error\<close>. The calls are recorded as made: what the socket does
  with a message sent after \<open>ws.close\<close> is the library's business.
\<close>

datatype effect =
    Sent outmsg
  | Closed nat string
  | Called jobcall
  | Logged logline

text \<open>
  The variables of one connection (\<open>job\<close>, \<open>box\<close>, \<open>testCount\<close>, \<open>totalTime\<close>,
  \<open>isCompiled\<close>) and its effects so far.
\<close>

record session =
  job :: "job option"
  box :: "box option"
  testCount :: int
  totalTime :: int
  isCompiled :: bool
  effects :: "effect list"

definition new_session :: session where
  "new_session = \<lparr> job = None, box = None, testCount = 0, totalTime = 0, isCompiled = False,
                    effects = [] \<rparr>"

text \<open>The effects of one kind, in order.\<close>

fun sent_of :: "effect list \<Rightarrow> outmsg list" where
  "sent_of [] = []"
| "sent_of (Sent m # es) = m # sent_of es"
| "sent_of (e # es) = sent_of es"

fun closes_of :: "effect list \<Rightarrow> (nat \<times> string) list" where
  "closes_of [] = []"
| "closes_of (Closed c reason # es) = (c, reason) # closes_of es"
| "closes_of (e # es) = closes_of es"

fun calls_of :: "effect list \<Rightarrow> jobcall list" where
  "calls_of [] = []"
| "calls_of (Called c # es) = c # calls_of es"
| "calls_of (e # es) = calls_of es"

fun logged_of :: "effect list \<Rightarrow> logline list" where
  "logged_of [] = []"
| "logged_of (Logged l # es) = l # logged_of es"
| "logged_of (e # es) = logged_of es"

definition sent :: "session \<Rightarrow> outmsg list" where
  "sent s = sent_of (effects s)"

definition closes :: "session \<Rightarrow> (nat \<times> string) list" where
  "closes s = closes_of (effects s)"

definition calls :: "session \<Rightarrow> jobcall list" where
  "calls s = calls_of (effects s)"

definition logged :: "session \<Rightarrow> logline list" where
  "logged s = logged_of (effects s)"

definition sendMessage :: "outmsg \<Rightarrow> session \<Rightarrow> session" where
  "sendMessage m s = s\<lparr> effects := effects s @ [Sent m] \<rparr>"

definition ws_close :: "nat \<Rightarrow> string \<Rightarrow> session \<Rightarrow> session" where
  "ws_close c reason s = s\<lparr> effects := effects s @ [Closed c reason] \<rparr>"

definition logger_error :: "logline \<Rightarrow> session \<Rightarrow> session" where
  "logger_error l s = s\<lparr> effects := effects s @ [Logged l] \<rparr>"

definition call :: "jobcall \<Rightarrow> session \<Rightarrow> session" where
  "call c s = s\<lparr> effects := effects s @ [Called c] \<rparr>"

text \<open>The outer \<open>catch\<close> of the message handler.\<close>

definition notify_error :: "string \<Rightarrow> session \<Rightarrow> session" where
  "notify_error m s = ws_close 4002 ''Notified Error'' (sendMessage (Error_msg None m) s)"

text \<open>\<open>await job.cleanup()\<close>: the call is recorded, its outcome is the world's.\<close>

definition job_cleanup :: "world \<Rightarrow> session \<Rightarrow> unit outcome \<times> session" where
  "job_cleanup w s = (cleanup_outcome w (length (calls s)), call Cleanup s)"

section \<open>The message handler of \<open>/judge\<close>\<close>

text \<open>
  The \<open>catch\<close> of the second \<open>try\<close> of \<open>init\<close>. The job is set by then, so
  \<open>if (job)\<close> holds; a throw of this \<open>cleanup\<close> reaches the outer \<open>catch\<close>.
\<close>

definition init_catch :: "world \<Rightarrow> string \<Rightarrow> session \<Rightarrow> session" where
  "init_catch w m s =
     (let s1 = sendMessage (Error_msg None m) (logger_error (Log_init m) s)
      in if job s1 \<noteq> None
         then (case job_cleanup w s1 of
                 (Throws m2, s2) \<Rightarrow> notify_error m2 s2
               | (Resolves u, s2) \<Rightarrow> ws_close 4002 ''Notified Error'' s2)
         else ws_close 4002 ''Notified Error'' s1)"

definition compiled_msg :: "compile_result \<Rightarrow> outmsg" where
  "compiled_msg r =
     (case cr_compile r of
        None \<Rightarrow> Compiled (cr_success r) (JNum 0) (JStr []) (JStr []) JNull
      | Some c \<Rightarrow>
          Compiled (cr_success r)
            (js_or (cs_wall_time c) (JNum 0))
            (js_or (cs_stdout c) (JStr []))
            (js_or (cs_stderr c) (JStr []))
            (js_or (cs_message c) JNull))"

definition handle_init :: "world \<Rightarrow> jsval \<Rightarrow> session \<Rightarrow> session" where
  "handle_init w msg s =
     (if job s \<noteq> None then ws_close 4000 ''Already Initialized'' s
      else (case get_job (lookup_runtime w) msg of
         Inl m \<Rightarrow> ws_close 4002 ''Notified Error'' (sendMessage (Error_msg None m) s)
       | Inr j \<Rightarrow>
          (let s1 = call Prime (s\<lparr> job := Some j \<rparr>)
           in case prime_outcome w of
              Throws m \<Rightarrow> init_catch w m s1
            | Resolves b \<Rightarrow>
               (let s2 = sendMessage
                           (Ready (rt_language (job_runtime j)) (rt_version_raw (job_runtime j))
                              (rt_compiled (job_runtime j)))
                           (s1\<lparr> box := Some b \<rparr>);
                    s3 = call (CompileOnly b) s2
                in case compile_outcome w of
                   Throws m \<Rightarrow> init_catch w m s3
                 | Resolves r \<Rightarrow>
                    (let s4 = sendMessage (compiled_msg r) (s3\<lparr> isCompiled := cr_success r \<rparr>)
                     in if \<not> isCompiled s4
                        then (case job_cleanup w s4 of
                                (Throws m, s5) \<Rightarrow> init_catch w m s5
                              | (Resolves u, s5) \<Rightarrow> ws_close 4006 ''Compilation Failed'' s5)
                        else s4)))))"

definition handle_run_test :: "world \<Rightarrow> jsval \<Rightarrow> session \<Rightarrow> session" where
  "handle_run_test w msg s =
     (if job s = None then ws_close 4003 ''Not yet initialized'' s
      else if \<not> isCompiled s
        then sendMessage (Error_msg None ''Code did not compile successfully'') s
      else
        (let a1 = js_or (jsprop msg ''stdin'') (JStr []);
             a2 = js_or (jsprop msg ''timeout'') JNull;
             a3 = js_or (jsprop msg ''cpu_time'') JNull;
             a4 = js_or (jsprop msg ''memory_limit'') JNull;
             s1 = call (RunTest a1 a2 a3 a4) s
         in case runTest_outcome w (length (calls s)) a1 a2 a3 a4 of
            Resolves testResult \<Rightarrow>
              (let s2 = s1\<lparr> testCount := testCount s1 + 1 \<rparr>;
                   s3 = s2\<lparr> totalTime := totalTime s2 + time_or_0 (tr_wall_time testResult) \<rparr>
               in sendMessage
                    (Result (js_or (jsprop msg ''test_id'') (JNum (testCount s3))) testResult) s3)
          | Throws m \<Rightarrow>
              sendMessage
                (Error_msg (Some (js_or (jsprop msg ''test_id'') (JNum (testCount s1 + 1)))) m)
                (logger_error (Log_run_test m) s1)))"

definition handle_run_batch :: "world \<Rightarrow> jsval \<Rightarrow> session \<Rightarrow> session" where
  "handle_run_batch w msg s =
     (if job s = None then ws_close 4003 ''Not yet initialized'' s
      else if \<not> isCompiled s
        then sendMessage (Error_msg None ''Code did not compile successfully'') s
      else (case jsprop msg ''test_cases'' of
         JArr (tc # tcs) \<Rightarrow>
           (let a1 = JArr (tc # tcs);
                a2 = js_or (jsprop msg ''timeout'') JNull;
                a3 = js_or (jsprop msg ''cpu_time'') JNull;
                a4 = js_or (jsprop msg ''memory_limit'') JNull;
                s1 = call (RunBatched a1 a2 a3 a4) s
            in case runBatched_outcome w (length (calls s)) a1 a2 a3 a4 of
               Resolves batchResult \<Rightarrow>
                 (let s2 = s1\<lparr> testCount := int (length (tc # tcs)) \<rparr>;
                      s3 = s2\<lparr> totalTime := time_or_0 (br_total_time batchResult) \<rparr>
                  in sendMessage (Batch_result (testCount s3) batchResult) s3)
             | Throws m \<Rightarrow>
                 sendMessage (Error_msg None m) (logger_error (Log_run_batch m) s1))
       | _ \<Rightarrow>
           sendMessage (Error_msg None ''test_cases array is required for run_batch'') s))"

definition handle_close :: "world \<Rightarrow> session \<Rightarrow> session" where
  "handle_close w s =
     (let s1 = sendMessage (Done (testCount s) (totalTime s)) s
      in if job s1 \<noteq> None
         then (case job_cleanup w s1 of
                 (Throws m, s2) \<Rightarrow> notify_error m s2
               | (Resolves u, s2) \<Rightarrow> ws_close 4999 ''Session Completed'' s2)
         else ws_close 4999 ''Session Completed'' s1)"

text \<open>
  A frame either fails to parse (\<open>JSON.parse\<close> throws, with a message) or is a value.
  \<open>msg.type\<close> throws on \<open>null\<close> (and would on \<open>undefined\<close>, which no frame parses
  to); any other value that is not an object has no
  \<open>type\<close> and falls to the \<open>default\<close> case. There the template string converts
  \<open>msg.type\<close> to a string; where that conversion throws, the outer \<open>catch\<close> takes
  over.
\<close>

datatype frame = Unparsable string | Json jsval

definition on_message :: "world \<Rightarrow> frame \<Rightarrow> session \<Rightarrow> session" where
  "on_message w data s =
     (case data of
        Unparsable m \<Rightarrow> notify_error m s
      | Json msg \<Rightarrow>
          if msg = JNull \<or> msg = JUndefined
            then notify_error
                   (''Cannot read properties of '' @ js_string msg @ '' (reading 'type')'') s
          else if jsprop msg ''type'' = JStr ''init'' then handle_init w msg s
          else if jsprop msg ''type'' = JStr ''run_test'' then handle_run_test w msg s
          else if jsprop msg ''type'' = JStr ''run_batch'' then handle_run_batch w msg s
          else if jsprop msg ''type'' = JStr ''close'' then handle_close w s
          else if string_conversion_throws (jsprop msg ''type'')
            then notify_error ''Cannot convert object to primitive value'' s
          else sendMessage
                 (Error_msg None (''Unknown message type: '' @ js_string (jsprop msg ''type''))) s)"

text \<open>\<open>ws.on('close', ...)\<close>: the socket has closed, whoever closed it.\<close>

definition on_close :: "world \<Rightarrow> session \<Rightarrow> session" where
  "on_close w s =
     (if job s \<noteq> None
      then (case job_cleanup w s of
              (Throws m, s1) \<Rightarrow> logger_error (Log_cleanup_on_close m) s1
            | (Resolves u, s1) \<Rightarrow> s1)
      else s)"

text \<open>The timer set when the connection opens.\<close>

definition on_init_timeout :: "session \<Rightarrow> session" where
  "on_init_timeout s =
     (if job s = None then ws_close 4001 ''Initialization Timeout'' s else s)"

text \<open>
  A session is the sequence of the events of one connection, each handled to its end
  before the next: the frames received, the timer, the closing of the socket.
\<close>

datatype event = Message frame | Init_timer | Socket_closed

fun step :: "world \<Rightarrow> session \<Rightarrow> event \<Rightarrow> session" where
  "step w s (Message data) = on_message w data s"
| "step w s Init_timer = on_init_timeout s"
| "step w s Socket_closed = on_close w s"

definition run :: "world \<Rightarrow> event list \<Rightarrow> session \<Rightarrow> session" where
  "run w evs s = foldl (step w) s evs"

section \<open>Concrete runtimes, worlds and frames\<close>

text \<open>
  A registry with two runtimes: an interpreted language with positive time limits and
  unbounded memory (a limit of \<open>-1\<close>), and the runtime of the language \<open>file\<close>.
\<close>

definition python_rt :: runtime where
  "python_rt = \<lparr> rt_language = ''python'', rt_version_raw = ''3.10.0'', rt_compiled = False,
                  rt_timeouts_compile = 10000, rt_timeouts_run = 3000,
                  rt_cpu_times_compile = 10000, rt_cpu_times_run = 3000,
                  rt_memory_limits_compile = - 1, rt_memory_limits_run = - 1 \<rparr>"

definition file_rt :: runtime where
  "file_rt = python_rt\<lparr> rt_language := ''file'', rt_version_raw := ''0.0.1'' \<rparr>"

definition demo_registry :: registry where
  "demo_registry l v =
     (if l = ''python'' then Some python_rt else if l = ''file'' then Some file_rt else None)"

definition demo_test_result :: "int \<Rightarrow> test_result" where
  "demo_test_result t =
     \<lparr> tr_stdout = JStr ''10'', tr_stderr = JStr [], tr_code = JNum 0, tr_signal = JNull,
       tr_message = JNull, tr_status = JNull, tr_wall_time = Some t, tr_cpu_time = JNum 1,
       tr_memory = JNum 8192 \<rparr>"

definition demo_batch_result :: "int \<Rightarrow> batch_result" where
  "demo_batch_result t =
     \<lparr> br_results = JArr [], br_total_time = Some t, br_total_cpu_time = JNum 2,
       br_memory = JNum 8192, br_success = JBool True, br_stderr = JStr [] \<rparr>"

text \<open>
  A world where everything succeeds (each test takes 10 ms, each batch 30 ms), and its
  variants: the compile stage fails, \<open>prime\<close> throws, \<open>cleanup\<close> throws.
\<close>

definition ok_world :: world where
  "ok_world =
     \<lparr> lookup_runtime = demo_registry,
       prime_outcome = Resolves 1,
       compile_outcome = Resolves \<lparr> cr_success = True, cr_compile = None \<rparr>,
       runTest_outcome = (\<lambda>n a1 a2 a3 a4. Resolves (demo_test_result 10)),
       runBatched_outcome = (\<lambda>n a1 a2 a3 a4. Resolves (demo_batch_result 30)),
       cleanup_outcome = (\<lambda>n. Resolves ()) \<rparr>"

definition compile_fail_world :: world where
  "compile_fail_world =
     ok_world\<lparr> compile_outcome :=
       Resolves \<lparr> cr_success = False,
                  cr_compile = Some \<lparr> cs_wall_time = JNum 120, cs_stdout = JStr [],
                                       cs_stderr = JStr ''syntax error'', cs_message = JNull \<rparr> \<rparr> \<rparr>"

definition prime_fault_world :: world where
  "prime_fault_world = ok_world\<lparr> prime_outcome := Throws ''no free box'' \<rparr>"

definition cleanup_fault_world :: world where
  "cleanup_fault_world = ok_world\<lparr> cleanup_outcome := (\<lambda>n. Throws ''rm failed'') \<rparr>"

definition init_with :: "(string \<times> jsval) list \<Rightarrow> jsval" where
  "init_with extra =
     JObj ([(''type'', JStr ''init''), (''language'', JStr ''python''), (''version'', JStr ''*''),
            (''files'', JArr [JObj [(''content'', JStr ''print(int(input())*2)'')]])] @ extra)"

definition init_file_empty :: jsval where
  "init_file_empty =
     JObj [(''type'', JStr ''init''), (''language'', JStr ''file''), (''version'', JStr ''*''),
           (''files'', JArr [])]"

definition run_test_with :: "(string \<times> jsval) list \<Rightarrow> jsval" where
  "run_test_with extra = JObj ([(''type'', JStr ''run_test''), (''stdin'', JStr ''5'')] @ extra)"

definition run_batch_of :: "jsval list \<Rightarrow> jsval" where
  "run_batch_of cases = JObj [(''type'', JStr ''run_batch''), (''test_cases'', JArr cases)]"

definition close_msg :: jsval where
  "close_msg = JObj [(''type'', JStr ''close'')]"

text \<open>The job that \<open>get_job\<close> makes of \<open>init_with []\<close> in the registry above.\<close>

definition demo_job :: job where
  "demo_job =
     \<lparr> job_runtime = python_rt, job_args = JArr [], job_stdin = JStr [],
       job_files = [JObj [(''content'', JStr ''print(int(input())*2)'')]],
       job_timeouts_run = JNum 3000, job_timeouts_compile = JNum 10000,
       job_cpu_times_run = JNum 3000, job_cpu_times_compile = JNum 10000,
       job_memory_limits_run = JNum (- 1), job_memory_limits_compile = JNum (- 1) \<rparr>"

text \<open>An \<open>init\<close> for the same language with the given \<open>files\<close>, and one with none.\<close>

definition init_python_files :: "jsval \<Rightarrow> jsval" where
  "init_python_files fs =
     JObj [(''type'', JStr ''init''), (''language'', JStr ''python''), (''version'', JStr ''*''),
           (''files'', fs)]"

definition init_no_files :: jsval where
  "init_no_files =
     JObj [(''type'', JStr ''init''), (''language'', JStr ''python''), (''version'', JStr ''*'')]"

text \<open>A world where the compile stage fails and \<open>cleanup\<close> throws.\<close>

definition compile_cleanup_fault_world :: world where
  "compile_cleanup_fault_world =
     compile_fail_world\<lparr> cleanup_outcome := (\<lambda>n. Throws ''rm failed'') \<rparr>"

section \<open>Vocabulary of the properties\<close>

text \<open>The number of invocations of \<open>cleanup\<close> so far.\<close>

definition cleanups :: "session \<Rightarrow> nat" where
  "cleanups s = count_list (calls s) Cleanup"

text \<open>
  The messages that carry the result of a test or of a batch, and the calls that run one.
\<close>

fun is_result_msg :: "outmsg \<Rightarrow> bool" where
  "is_result_msg (Result i r) = True"
| "is_result_msg (Batch_result n r) = True"
| "is_result_msg m = False"

fun is_test_call :: "jobcall \<Rightarrow> bool" where
  "is_test_call (RunTest a1 a2 a3 a4) = True"
| "is_test_call (RunBatched a1 a2 a3 a4) = True"
| "is_test_call c = False"

text \<open>
  The events between \<open>init\<close> and the end of a session that do not end it: anything but
  a \<open>close\<close> message and the closing of the socket.
\<close>

fun ongoing :: "event \<Rightarrow> bool" where
  "ongoing Socket_closed = False"
| "ongoing (Message (Json msg)) = (jsprop msg ''type'' \<noteq> JStr ''close'')"
| "ongoing (Message (Unparsable m)) = True"
| "ongoing Init_timer = True"

text \<open>
  A limit of the payload that \<open>get_job\<close> refuses for the runtime \<open>rt\<close>: a truthy value
  that is not a number, or a non-zero number that, the configured limit being positive,
  exceeds it or is negative.
\<close>

definition bad_limit :: "runtime \<Rightarrow> jsval \<Rightarrow> constraint \<Rightarrow> stage \<Rightarrow> bool" where
  "bad_limit rt body c t =
     (case jsprop body (constraint_name c t) of
        JNum n \<Rightarrow> n \<noteq> 0 \<and> 0 < configured_limit rt c t \<and> (configured_limit rt c t < n \<or> n < 0)
      | v \<Rightarrow> truthy v)"

text \<open>The \<open>test_id\<close>s of the \<open>result\<close> messages among the messages sent, in order.\<close>

fun result_ids :: "outmsg list \<Rightarrow> jsval list" where
  "result_ids [] = []"
| "result_ids (Result i r # ms) = i # result_ids ms"
| "result_ids (m # ms) = result_ids ms"

text \<open>
  The \<open>test_id\<close>s that a run of \<open>run_test\<close> messages is to be answered with, the counter
  standing at \<open>c\<close> before: the client's \<open>test_id\<close> where it is truthy, the counter after
  its increment otherwise.
\<close>

fun expected_test_ids :: "int \<Rightarrow> jsval list \<Rightarrow> jsval list" where
  "expected_test_ids c [] = []"
| "expected_test_ids c (msg # msgs) =
     (if truthy (jsprop msg ''test_id'') then jsprop msg ''test_id'' else JNum (c + 1))
       # expected_test_ids (c + 1) msgs"

section \<open>The primitive effects\<close>

lemma sent_of_append [simp]: "sent_of (es @ fs) = sent_of es @ sent_of fs"
  by (induction es rule: sent_of.induct) simp_all

lemma closes_of_append [simp]: "closes_of (es @ fs) = closes_of es @ closes_of fs"
  by (induction es rule: closes_of.induct) simp_all

lemma calls_of_append [simp]: "calls_of (es @ fs) = calls_of es @ calls_of fs"
  by (induction es rule: calls_of.induct) simp_all

lemma logged_of_append [simp]: "logged_of (es @ fs) = logged_of es @ logged_of fs"
  by (induction es rule: logged_of.induct) simp_all

lemma new_session_simps [simp]:
  "job new_session = None"
  "isCompiled new_session = False"
  "testCount new_session = 0"
  "totalTime new_session = 0"
  "effects new_session = []"
  "sent new_session = []"
  "closes new_session = []"
  "calls new_session = []"
  "logged new_session = []"
  by (simp_all add: new_session_def sent_def closes_def calls_def logged_def)

lemma update_simps [simp]:
  "sent (s\<lparr> testCount := n \<rparr>) = sent s"
  "sent (s\<lparr> totalTime := n \<rparr>) = sent s"
  "sent (s\<lparr> isCompiled := b \<rparr>) = sent s"
  "sent (s\<lparr> job := j \<rparr>) = sent s"
  "sent (s\<lparr> box := bx \<rparr>) = sent s"
  "closes (s\<lparr> testCount := n \<rparr>) = closes s"
  "closes (s\<lparr> totalTime := n \<rparr>) = closes s"
  "closes (s\<lparr> isCompiled := b \<rparr>) = closes s"
  "closes (s\<lparr> job := j \<rparr>) = closes s"
  "closes (s\<lparr> box := bx \<rparr>) = closes s"
  "calls (s\<lparr> testCount := n \<rparr>) = calls s"
  "calls (s\<lparr> totalTime := n \<rparr>) = calls s"
  "calls (s\<lparr> isCompiled := b \<rparr>) = calls s"
  "calls (s\<lparr> job := j \<rparr>) = calls s"
  "calls (s\<lparr> box := bx \<rparr>) = calls s"
  "logged (s\<lparr> testCount := n \<rparr>) = logged s"
  "logged (s\<lparr> totalTime := n \<rparr>) = logged s"
  "logged (s\<lparr> isCompiled := b \<rparr>) = logged s"
  "logged (s\<lparr> job := j \<rparr>) = logged s"
  "logged (s\<lparr> box := bx \<rparr>) = logged s"
  by (simp_all add: sent_def closes_def calls_def logged_def)

lemma sendMessage_simps [simp]:
  "effects (sendMessage m s) = effects s @ [Sent m]"
  "sent (sendMessage m s) = sent s @ [m]"
  "closes (sendMessage m s) = closes s"
  "calls (sendMessage m s) = calls s"
  "logged (sendMessage m s) = logged s"
  "job (sendMessage m s) = job s"
  "isCompiled (sendMessage m s) = isCompiled s"
  "testCount (sendMessage m s) = testCount s"
  "totalTime (sendMessage m s) = totalTime s"
  by (simp_all add: sendMessage_def sent_def closes_def calls_def logged_def)

lemma ws_close_simps [simp]:
  "effects (ws_close c r s) = effects s @ [Closed c r]"
  "sent (ws_close c r s) = sent s"
  "closes (ws_close c r s) = closes s @ [(c, r)]"
  "calls (ws_close c r s) = calls s"
  "logged (ws_close c r s) = logged s"
  "job (ws_close c r s) = job s"
  "isCompiled (ws_close c r s) = isCompiled s"
  "testCount (ws_close c r s) = testCount s"
  "totalTime (ws_close c r s) = totalTime s"
  by (simp_all add: ws_close_def sent_def closes_def calls_def logged_def)

lemma logger_error_simps [simp]:
  "effects (logger_error l s) = effects s @ [Logged l]"
  "sent (logger_error l s) = sent s"
  "closes (logger_error l s) = closes s"
  "calls (logger_error l s) = calls s"
  "logged (logger_error l s) = logged s @ [l]"
  "job (logger_error l s) = job s"
  "isCompiled (logger_error l s) = isCompiled s"
  "testCount (logger_error l s) = testCount s"
  "totalTime (logger_error l s) = totalTime s"
  by (simp_all add: logger_error_def sent_def closes_def calls_def logged_def)

lemma call_simps [simp]:
  "effects (call c s) = effects s @ [Called c]"
  "sent (call c s) = sent s"
  "closes (call c s) = closes s"
  "calls (call c s) = calls s @ [c]"
  "logged (call c s) = logged s"
  "job (call c s) = job s"
  "isCompiled (call c s) = isCompiled s"
  "testCount (call c s) = testCount s"
  "totalTime (call c s) = totalTime s"
  by (simp_all add: call_def sent_def closes_def calls_def logged_def)

section \<open>Dispatch on the type of a message\<close>

lemma on_message_init:
  "jsprop msg ''type'' = JStr ''init'' \<Longrightarrow> on_message w (Json msg) s = handle_init w msg s"
  by (cases msg) (auto simp: on_message_def)

lemma on_message_run_test:
  "jsprop msg ''type'' = JStr ''run_test'' \<Longrightarrow>
   on_message w (Json msg) s = handle_run_test w msg s"
  by (cases msg) (auto simp: on_message_def)

lemma on_message_run_batch:
  "jsprop msg ''type'' = JStr ''run_batch'' \<Longrightarrow>
   on_message w (Json msg) s = handle_run_batch w msg s"
  by (cases msg) (auto simp: on_message_def)

lemma on_message_close:
  "jsprop msg ''type'' = JStr ''close'' \<Longrightarrow> on_message w (Json msg) s = handle_close w s"
  by (cases msg) (auto simp: on_message_def)

section \<open>Sessions and the steps of the handlers\<close>

lemma run_Nil [simp]: "run w [] s = s"
  by (simp add: run_def)

lemma run_Cons [simp]: "run w (e # evs) s = run w evs (step w s e)"
  by (simp add: run_def)

lemma run_append [simp]: "run w (evs @ evs') s = run w evs' (run w evs s)"
  by (simp add: run_def)

lemma cleanups_simps [simp]:
  "cleanups (sendMessage m s) = cleanups s"
  "cleanups (ws_close c r s) = cleanups s"
  "cleanups (logger_error l s) = cleanups s"
  "cleanups (call Cleanup s) = Suc (cleanups s)"
  "jc \<noteq> Cleanup \<Longrightarrow> cleanups (call jc s) = cleanups s"
  "cleanups (s\<lparr> testCount := n \<rparr>) = cleanups s"
  "cleanups (s\<lparr> totalTime := n \<rparr>) = cleanups s"
  "cleanups (s\<lparr> isCompiled := b \<rparr>) = cleanups s"
  "cleanups (s\<lparr> job := j \<rparr>) = cleanups s"
  "cleanups (s\<lparr> box := bx \<rparr>) = cleanups s"
  by (simp_all add: cleanups_def)

lemma job_cleanup_simps [simp]:
  "fst (job_cleanup w s) = cleanup_outcome w (length (calls s))"
  "snd (job_cleanup w s) = call Cleanup s"
  by (simp_all add: job_cleanup_def)

lemma notify_error_simps [simp]:
  "sent (notify_error m s) = sent s @ [Error_msg None m]"
  "closes (notify_error m s) = closes s @ [(4002, ''Notified Error'')]"
  "calls (notify_error m s) = calls s"
  "logged (notify_error m s) = logged s"
  "job (notify_error m s) = job s"
  "isCompiled (notify_error m s) = isCompiled s"
  "testCount (notify_error m s) = testCount s"
  "totalTime (notify_error m s) = totalTime s"
  "effects (notify_error m s) = effects s @ [Sent (Error_msg None m), Closed 4002 ''Notified Error'']"
  "cleanups (notify_error m s) = cleanups s"
  by (simp_all add: notify_error_def)

text \<open>What the handlers of the tests leave alone.\<close>

lemma handle_run_test_keeps:
  "job (handle_run_test w msg s) = job s"
  "isCompiled (handle_run_test w msg s) = isCompiled s"
  "cleanups (handle_run_test w msg s) = cleanups s"
  "closes (handle_run_test w msg s) = closes s @ (if job s = None then [(4003, ''Not yet initialized'')] else [])"
  by (simp_all add: handle_run_test_def Let_def split: outcome.split)

lemma handle_run_batch_keeps:
  "job (handle_run_batch w msg s) = job s"
  "isCompiled (handle_run_batch w msg s) = isCompiled s"
  "cleanups (handle_run_batch w msg s) = cleanups s"
  by (simp_all add: handle_run_batch_def Let_def split: outcome.split jsval.split list.split)

lemma handle_init_started:
  "job s \<noteq> None \<Longrightarrow> handle_init w msg s = ws_close 4000 ''Already Initialized'' s"
  by (simp add: handle_init_def)

lemma ongoing_step:
  assumes "job s \<noteq> None" and "ongoing e"
  shows "job (step w s e) = job s \<and> cleanups (step w s e) = cleanups s \<and> isCompiled (step w s e) = isCompiled s"
proof (cases e)
  case (Message data)
  show ?thesis
  proof (cases data)
    case (Unparsable m)
    with Message show ?thesis by (simp add: on_message_def)
  next
    case (Json msg)
    with Message assms show ?thesis
      by (simp add: on_message_def handle_init_started handle_run_test_keeps
          handle_run_batch_keeps)
  qed
next
  case Init_timer
  then show ?thesis by (simp add: on_init_timeout_def)
next
  case Socket_closed
  with assms show ?thesis by simp
qed

lemma ongoing_run:
  assumes "job s \<noteq> None" and "\<forall>e\<in>set evs. ongoing e"
  shows "job (run w evs s) = job s \<and> cleanups (run w evs s) = cleanups s \<and> isCompiled (run w evs s) = isCompiled s"
  using assms
proof (induction evs arbitrary: s)
  case Nil
  then show ?case by simp
next
  case (Cons e evs)
  from Cons.prems have st: "job (step w s e) = job s \<and> cleanups (step w s e) = cleanups s \<and> isCompiled (step w s e) = isCompiled s"
    by (simp add: ongoing_step)
  with Cons.prems have "job (step w s e) \<noteq> None" by simp
  with Cons.IH [of "step w s e"] Cons.prems st show ?case by simp
qed

lemma on_close_cleanups:
  "job s \<noteq> None \<Longrightarrow> cleanups (on_close w s) = Suc (cleanups s) \<and> job (on_close w s) = job s"
  by (simp add: on_close_def split_beta split: outcome.split)


lemma handle_close_effect:
  "job s \<noteq> None \<Longrightarrow>
   cleanups (handle_close w s) = Suc (cleanups s) \<and> job (handle_close w s) = job s"
  by (simp add: handle_close_def Let_def split_beta split: outcome.split)

lemma init_catch_effect:
  "job s \<noteq> None \<Longrightarrow>
   cleanups (init_catch w m s) = Suc (cleanups s) \<and> job (init_catch w m s) = job s"
  by (simp add: init_catch_def Let_def split_beta split: outcome.split)

lemma handle_init_compiled:
  assumes "job s = None" and "get_job (lookup_runtime w) msg = Inr j"
    and "prime_outcome w = Resolves b" and "compile_outcome w = Resolves r" and "cr_success r"
  shows "job (handle_init w msg s) = Some j"
    and "isCompiled (handle_init w msg s)"
    and "cleanups (handle_init w msg s) = cleanups s"
    and "sent (handle_init w msg s) =
           sent s @ [Ready (rt_language (job_runtime j)) (rt_version_raw (job_runtime j))
                       (rt_compiled (job_runtime j)), compiled_msg r]"
    and "calls (handle_init w msg s) = calls s @ [Prime, CompileOnly b]"
    and "closes (handle_init w msg s) = closes s"
    and "testCount (handle_init w msg s) = testCount s"
    and "totalTime (handle_init w msg s) = totalTime s"
  using assms by (simp_all add: handle_init_def Let_def)

lemma handle_init_compile_failed:
  assumes "job s = None" and "get_job (lookup_runtime w) msg = Inr j"
    and "prime_outcome w = Resolves b" and "compile_outcome w = Resolves r" and "\<not> cr_success r"
    and "cleanup_outcome w (length (calls s) + 2) = Resolves ()"
  shows "job (handle_init w msg s) = Some j"
    and "\<not> isCompiled (handle_init w msg s)"
    and "cleanups (handle_init w msg s) = Suc (cleanups s)"
    and "sent (handle_init w msg s) =
           sent s @ [Ready (rt_language (job_runtime j)) (rt_version_raw (job_runtime j))
                       (rt_compiled (job_runtime j)), compiled_msg r]"
    and "calls (handle_init w msg s) = calls s @ [Prime, CompileOnly b, Cleanup]"
    and "closes (handle_init w msg s) = closes s @ [(4006, ''Compilation Failed'')]"
  using assms by (simp_all add: handle_init_def Let_def job_cleanup_def)

lemma handle_init_fault:
  assumes "job s = None" and "get_job (lookup_runtime w) msg = Inr j"
    and "(\<exists>m. prime_outcome w = Throws m) \<or>
         (\<exists>b m. prime_outcome w = Resolves b \<and> compile_outcome w = Throws m)"
  shows "job (handle_init w msg s) = Some j"
    and "cleanups (handle_init w msg s) = Suc (cleanups s)"
  using assms by (auto simp add: handle_init_def Let_def init_catch_effect)

section \<open>The concrete worlds and frames\<close>

lemma demo_worlds_lookup [simp]:
  "lookup_runtime ok_world = demo_registry"
  "lookup_runtime compile_fail_world = demo_registry"
  "lookup_runtime prime_fault_world = demo_registry"
  "lookup_runtime cleanup_fault_world = demo_registry"
  by (simp_all add: ok_world_def compile_fail_world_def prime_fault_world_def
      cleanup_fault_world_def)

lemma get_job_demo_registry: "get_job demo_registry (init_with []) = Inr demo_job"
  by code_simp

lemma init_with_type [simp]: "jsprop (init_with extra) ''type'' = JStr ''init''"
  by (simp add: init_with_def)

lemma run_test_with_type [simp]: "jsprop (run_test_with extra) ''type'' = JStr ''run_test''"
  by (simp add: run_test_with_def)

lemma run_batch_of_type [simp]: "jsprop (run_batch_of cases) ''type'' = JStr ''run_batch''"
  by (simp add: run_batch_of_def)

lemma close_msg_type [simp]: "jsprop close_msg ''type'' = JStr ''close''"
  by (simp add: close_msg_def)

section \<open>Rejections of \<open>get_job\<close>\<close>

lemma get_job_files_not_array:
  "\<not> is_array (jsprop body ''files'') \<Longrightarrow> \<exists>m. get_job reg body = Inl m"
  by (cases "jsprop body ''files''") (simp_all add: get_job_def Let_def)

lemma get_job_files_empty:
  assumes "jsprop body ''files'' = JArr []"
    and "\<forall>rt. reg (js_string (jsprop body ''language'')) (js_string (jsprop body ''version''))
               = Some rt \<longrightarrow> rt_language rt \<noteq> ''file''"
  shows "\<exists>m. get_job reg body = Inl m"
  using assms by (simp add: get_job_def Let_def some_utf8_def split: option.split)

lemma constraint_order_complete: "(c, t) \<in> set constraint_order"
  by (cases c; cases t) (simp_all add: constraint_order_def)

lemma check_constraints_rejects:
  "ct \<in> set cts \<Longrightarrow> check_constraint rt body ct \<noteq> None \<Longrightarrow>
   check_constraints rt body cts \<noteq> None"
  by (induction cts) (auto split: option.split)

lemma bad_limit_rejected:
  "bad_limit rt body c t \<Longrightarrow> check_constraint rt body (c, t) \<noteq> None"
  by (cases "jsprop body (constraint_name c t)")
    (auto simp: bad_limit_def check_constraint_def Let_def)

lemma get_job_bad_limit:
  assumes "reg (js_string (jsprop body ''language'')) (js_string (jsprop body ''version''))
             = Some rt"
    and "bad_limit rt body c t"
  shows "\<exists>m. get_job reg body = Inl m"
proof -
  from assms(2) have "check_constraints rt body constraint_order \<noteq> None"
    by (intro check_constraints_rejects [of "(c, t)"] constraint_order_complete
        bad_limit_rejected)
  then obtain m where "check_constraints rt body constraint_order = Some m"
    by auto
  with assms(1) show ?thesis
    by (simp add: get_job_def Let_def split: jsval.split option.split)
qed

lemma handle_init_rejected:
  assumes "job s = None" and "get_job (lookup_runtime w) msg = Inl m"
  shows "handle_init w msg s = notify_error m s"
  using assms by (simp add: handle_init_def notify_error_def)

section \<open>Accepted tests\<close>

lemma result_ids_append [simp]: "result_ids (ms @ ns) = result_ids ms @ result_ids ns"
  by (induction ms rule: result_ids.induct) simp_all

lemma handle_run_test_accepted:
  assumes "job s \<noteq> None" and "isCompiled s"
    and "runTest_outcome w (length (calls s))
           (js_or (jsprop msg ''stdin'') (JStr [])) (js_or (jsprop msg ''timeout'') JNull)
           (js_or (jsprop msg ''cpu_time'') JNull) (js_or (jsprop msg ''memory_limit'') JNull)
         = Resolves tr"
  shows "effects (handle_run_test w msg s) =
           effects s @
           [Called (RunTest (js_or (jsprop msg ''stdin'') (JStr []))
                      (js_or (jsprop msg ''timeout'') JNull)
                      (js_or (jsprop msg ''cpu_time'') JNull)
                      (js_or (jsprop msg ''memory_limit'') JNull)),
            Sent (Result (js_or (jsprop msg ''test_id'') (JNum (testCount s + 1))) tr)]"
    and "testCount (handle_run_test w msg s) = testCount s + 1"
    and "totalTime (handle_run_test w msg s) = totalTime s + time_or_0 (tr_wall_time tr)"
  using assms by (auto simp add: handle_run_test_def Let_def)

lemma handle_run_test_sent:
  assumes "job s \<noteq> None" and "isCompiled s"
    and "runTest_outcome w (length (calls s))
           (js_or (jsprop msg ''stdin'') (JStr [])) (js_or (jsprop msg ''timeout'') JNull)
           (js_or (jsprop msg ''cpu_time'') JNull) (js_or (jsprop msg ''memory_limit'') JNull)
         = Resolves tr"
  shows "sent (handle_run_test w msg s) =
           sent s @ [Result (js_or (jsprop msg ''test_id'') (JNum (testCount s + 1))) tr]"
  using handle_run_test_accepted(1) [OF assms] by (simp add: sent_def)

lemma run_tests_result_ids:
  assumes "job s \<noteq> None" and "isCompiled s"
    and "\<forall>msg\<in>set tests. jsprop msg ''type'' = JStr ''run_test''"
    and "\<forall>n a1 a2 a3 a4. \<exists>tr. runTest_outcome w n a1 a2 a3 a4 = Resolves tr"
  shows "result_ids (sent (run w (map (\<lambda>msg. Message (Json msg)) tests) s))
         = result_ids (sent s) @ expected_test_ids (testCount s) tests"
  using assms(1,2,3)
proof (induction tests arbitrary: s)
  case Nil
  then show ?case by simp
next
  case (Cons msg tests)
  let ?s' = "handle_run_test w msg s"
  from assms(4) obtain tr where tr: "runTest_outcome w (length (calls s))
           (js_or (jsprop msg ''stdin'') (JStr [])) (js_or (jsprop msg ''timeout'') JNull)
           (js_or (jsprop msg ''cpu_time'') JNull) (js_or (jsprop msg ''memory_limit'') JNull)
         = Resolves tr"
    by blast
  from Cons.prems have step: "on_message w (Json msg) s = ?s'"
    by (simp add: on_message_run_test)
  from Cons.prems have keep: "job ?s' \<noteq> None" "isCompiled ?s'"
    by (simp_all add: handle_run_test_keeps)
  from Cons.prems tr have now: "testCount ?s' = testCount s + 1"
    "sent ?s' = sent s @ [Result (js_or (jsprop msg ''test_id'') (JNum (testCount s + 1))) tr]"
    by (simp_all add: handle_run_test_accepted handle_run_test_sent)
  from Cons.IH [OF keep] Cons.prems(3)
  have "result_ids (sent (run w (map (\<lambda>msg. Message (Json msg)) tests) ?s'))
         = result_ids (sent ?s') @ expected_test_ids (testCount ?s') tests"
    by simp
  with step now show ?case
    by (simp add: js_or_def)
qed

section \<open>A session whose code did not compile\<close>

lemma not_compiled_message:
  assumes "job s \<noteq> None" and "\<not> isCompiled s"
  shows "job (on_message w data s) = job s \<and> \<not> isCompiled (on_message w data s)
         \<and> filter is_result_msg (sent (on_message w data s)) = filter is_result_msg (sent s)
         \<and> filter is_test_call (calls (on_message w data s)) = filter is_test_call (calls s)"
proof (cases data)
  case (Unparsable m)
  with assms show ?thesis by (simp add: on_message_def)
next
  case (Json msg)
  have close: "job (handle_close w s) = job s \<and> \<not> isCompiled (handle_close w s)
         \<and> filter is_result_msg (sent (handle_close w s)) = filter is_result_msg (sent s)
         \<and> filter is_test_call (calls (handle_close w s)) = filter is_test_call (calls s)"
    using assms
    by (auto simp add: handle_close_def Let_def job_cleanup_def split: outcome.split)
  have test: "handle_run_test w msg s
              = sendMessage (Error_msg None ''Code did not compile successfully'') s"
    and batch: "handle_run_batch w msg s
              = sendMessage (Error_msg None ''Code did not compile successfully'') s"
    using assms by (auto simp add: handle_run_test_def handle_run_batch_def)
  from Json assms close show ?thesis
    by (simp add: on_message_def handle_init_started test batch)
qed

lemma not_compiled_step:
  assumes "job s \<noteq> None" and "\<not> isCompiled s"
  shows "job (step w s e) = job s \<and> \<not> isCompiled (step w s e)
         \<and> filter is_result_msg (sent (step w s e)) = filter is_result_msg (sent s)
         \<and> filter is_test_call (calls (step w s e)) = filter is_test_call (calls s)"
proof (cases e)
  case (Message data)
  with not_compiled_message [OF assms] show ?thesis by simp
next
  case Init_timer
  with assms show ?thesis by (simp add: on_init_timeout_def)
next
  case Socket_closed
  with assms show ?thesis
    by (auto simp add: on_close_def job_cleanup_def split: outcome.split)
qed

lemma not_compiled_run:
  assumes "job s \<noteq> None" and "\<not> isCompiled s"
  shows "filter is_result_msg (sent (run w evs s)) = filter is_result_msg (sent s)
         \<and> filter is_test_call (calls (run w evs s)) = filter is_test_call (calls s)"
  using assms
proof (induction evs arbitrary: s)
  case Nil
  then show ?case by simp
next
  case (Cons e evs)
  from not_compiled_step [OF Cons.prems, of w e]
  have st: "job (step w s e) \<noteq> None" "\<not> isCompiled (step w s e)"
    "filter is_result_msg (sent (step w s e)) = filter is_result_msg (sent s)"
    "filter is_test_call (calls (step w s e)) = filter is_test_call (calls s)"
    using Cons.prems by simp_all
  from Cons.IH [OF st(1,2)] st(3,4) show ?case by simp
qed

lemma handle_init_compile_failed_trace:
  assumes "job s = None" and "get_job (lookup_runtime w) msg = Inr j"
    and "prime_outcome w = Resolves b" and "compile_outcome w = Resolves r" and "\<not> cr_success r"
  shows "effects (handle_init w msg s) =
           effects s @
           [Called Prime,
            Sent (Ready (rt_language (job_runtime j)) (rt_version_raw (job_runtime j))
                    (rt_compiled (job_runtime j))),
            Called (CompileOnly b),
            Sent (compiled_msg r),
            Called Cleanup] @
           (case cleanup_outcome w (length (calls s) + 2) of
              Resolves u \<Rightarrow> [Closed 4006 ''Compilation Failed'']
            | Throws m \<Rightarrow>
                [Logged (Log_init m), Sent (Error_msg None m), Called Cleanup] @
                (case cleanup_outcome w (length (calls s) + 3) of
                   Resolves u \<Rightarrow> []
                 | Throws m2 \<Rightarrow> [Sent (Error_msg None m2)]) @
                [Closed 4002 ''Notified Error''])"
  using assms
  by (auto simp add: handle_init_def Let_def job_cleanup_def init_catch_def
      numeral_2_eq_2 numeral_3_eq_3 split: outcome.split)

lemma compiled_msg_success:
  "\<exists>t out err e. compiled_msg r = Compiled (cr_success r) t out err e"
  by (simp add: compiled_msg_def split: option.split)

lemma handle_init_compile_failed_any:
  assumes "job s = None" and "get_job (lookup_runtime w) msg = Inr j"
    and "prime_outcome w = Resolves b" and "compile_outcome w = Resolves r" and "\<not> cr_success r"
  shows "job (handle_init w msg s) = Some j"
    and "\<not> isCompiled (handle_init w msg s)"
    and "filter is_result_msg (sent (handle_init w msg s)) = filter is_result_msg (sent s)"
    and "filter is_test_call (calls (handle_init w msg s)) = filter is_test_call (calls s)"
  using assms compiled_msg_success [of r]
  by (auto simp add: handle_init_def Let_def job_cleanup_def init_catch_def
      split: outcome.split)

section \<open>The arguments handed to the job\<close>



section \<open>A cleanup that throws\<close>

lemma handle_init_cleanup_throws:
  assumes "job s = None" and "get_job (lookup_runtime w) msg = Inr j"
    and "prime_outcome w = Resolves b" and "compile_outcome w = Resolves r" and "\<not> cr_success r"
    and "cleanup_outcome w (length (calls s) + 2) = Throws m"
  shows "closes (handle_init w msg s) = closes s @ [(4002, ''Notified Error'')]"
    and "Error_msg None m \<in> set (sent (handle_init w msg s))"
    and "logged (handle_init w msg s) = logged s @ [Log_init m]"
  using assms
  by (auto simp add: handle_init_def Let_def job_cleanup_def init_catch_def
      split: outcome.split)

section \<open>C1: the totals reported by \<open>done\<close>\<close>

text \<open>
  C1 says that \<open>done\<close> reports running totals over the whole session, a \<open>run_batch\<close>
  adding its number of cases and its \<open>total_time\<close> to them. The handler of
  \<open>run_batch\<close> assigns instead (\<open>testCount = msg.test_cases.length\<close>,
  \<open>totalTime = batchResult.total_time || 0\<close>), where that of \<open>run_test\<close> adds. In the
  session below one test of 10 ms is followed by a batch of two cases taking 30 ms: the
  totals over the session are 3 tests and 40 ms, and \<open>done\<close> reports 2 and 30.
\<close>

theorem C1_batch_overwrites_totals:
  "sent (run ok_world
           [Message (Json (init_with [])), Message (Json (run_test_with [])),
            Message (Json (run_batch_of [JObj [], JObj []])), Message (Json close_msg)]
           new_session)
   = [Ready ''python'' ''3.10.0'' False,
      Compiled True (JNum 0) (JStr []) (JStr []) JNull,
      Result (JNum 1) (demo_test_result 10),
      Batch_result 2 (demo_batch_result 30),
      Done 2 30]"
  by code_simp

section \<open>C2: how often \<open>cleanup\<close> is invoked\<close>

text \<open>
  C2 says that \<open>Job.cleanup\<close> is invoked exactly once on every termination path. The
  \<open>close\<close> case of the message handler invokes it and then closes the socket; the
  handler of the socket's \<open>close\<close> event invokes it again, since \<open>job\<close> is never
  reset. In the session below (\<open>init\<close>, \<open>close\<close>, the socket closes) it is invoked
  twice.
\<close>

theorem C2_cleanup_twice_on_close:
  "cleanups (run ok_world
               [Message (Json (init_with [])), Message (Json close_msg), Socket_closed]
               new_session) = 2"
  by code_simp

text \<open>
  C2 as amended: in every session that has a job when the socket closes, \<open>cleanup\<close>
  has been invoked at least once after the socket's \<open>close\<close> event is handled. Where
  \<open>cleanup\<close> does not throw, \<open>init\<close> is accepted by \<open>get_job\<close> and the events
  in between end nothing, the count is: two on an explicit \<open>close\<close>, one when the
  transport is lost after a successful compile, two after a compile failure and two after
  a fault of \<open>prime\<close> or \<open>compileOnly\<close> during \<open>init\<close> (the message handler
  cleans up, and the handler of the \<open>close\<close> event does so once more).
\<close>

theorem C2_cleanup_counts:
  assumes init: "jsprop init ''type'' = JStr ''init''"
    and accepted: "get_job (lookup_runtime w) init = Inr j"
    and cleanup: "\<forall>n. cleanup_outcome w n = Resolves ()"
    and mid: "\<forall>e\<in>set evs. ongoing e"
  shows
    "(job (run w' evs' new_session) \<noteq> None \<longrightarrow>
        1 \<le> cleanups (run w' (evs' @ [Socket_closed]) new_session))
     \<and> (\<forall>b r. prime_outcome w = Resolves b \<and> compile_outcome w = Resolves r \<and> cr_success r \<longrightarrow>
          cleanups (run w (Message (Json init) # evs @ [Message (Json close_msg), Socket_closed])
                      new_session) = 2
          \<and> cleanups (run w (Message (Json init) # evs @ [Socket_closed]) new_session) = 1)
     \<and> (\<forall>b r. prime_outcome w = Resolves b \<and> compile_outcome w = Resolves r \<and> \<not> cr_success r \<longrightarrow>
          cleanups (run w (Message (Json init) # evs @ [Socket_closed]) new_session) = 2)
     \<and> ((\<exists>m. prime_outcome w = Throws m)
          \<or> (\<exists>b m. prime_outcome w = Resolves b \<and> compile_outcome w = Throws m) \<longrightarrow>
          cleanups (run w (Message (Json init) # evs @ [Socket_closed]) new_session) = 2)"
proof -
  have new: "job new_session = None" "cleanups new_session = 0" "calls new_session = []"
    by (simp_all add: cleanups_def)
  let ?s1 = "handle_init w init new_session"
  have first: "on_message w (Json init) new_session = ?s1"
    using init by (simp add: on_message_init)
  have close: "on_message w (Json close_msg) s = handle_close w s" for s
    by (simp add: on_message_close close_msg_def)
  have general: "job (run w' evs' new_session) \<noteq> None \<longrightarrow>
        1 \<le> cleanups (run w' (evs' @ [Socket_closed]) new_session)"
    by (simp add: on_close_cleanups)
  have ok: "cleanups (run w (Message (Json init) # evs @ [Message (Json close_msg), Socket_closed])
                      new_session) = 2
          \<and> cleanups (run w (Message (Json init) # evs @ [Socket_closed]) new_session) = 1"
    if "prime_outcome w = Resolves b" "compile_outcome w = Resolves r" "cr_success r" for b r
  proof -
    from that accepted new have s1: "job ?s1 = Some j" "cleanups ?s1 = 0"
      by (simp_all add: handle_init_compiled)
    with mid have s2: "job (run w evs ?s1) = Some j" "cleanups (run w evs ?s1) = 0"
      using ongoing_run [of ?s1 evs w] by simp_all
    then show ?thesis
      by (simp add: first close handle_close_effect on_close_cleanups)
  qed
  have failed: "cleanups (run w (Message (Json init) # evs @ [Socket_closed]) new_session) = 2"
    if "prime_outcome w = Resolves b" "compile_outcome w = Resolves r" "\<not> cr_success r" for b r
  proof -
    from that accepted new cleanup have s1: "job ?s1 = Some j" "cleanups ?s1 = 1"
      by (simp_all add: handle_init_compile_failed)
    with mid have s2: "job (run w evs ?s1) = Some j" "cleanups (run w evs ?s1) = 1"
      using ongoing_run [of ?s1 evs w] by simp_all
    then show ?thesis
      by (simp add: first on_close_cleanups)
  qed
  have fault: "cleanups (run w (Message (Json init) # evs @ [Socket_closed]) new_session) = 2"
    if "(\<exists>m. prime_outcome w = Throws m)
          \<or> (\<exists>b m. prime_outcome w = Resolves b \<and> compile_outcome w = Throws m)"
  proof -
    from that accepted new have s1: "job ?s1 = Some j" "cleanups ?s1 = 1"
      by (simp_all add: handle_init_fault)
    with mid have s2: "job (run w evs ?s1) = Some j" "cleanups (run w evs ?s1) = 1"
      using ongoing_run [of ?s1 evs w] by simp_all
    then show ?thesis
      by (simp add: first on_close_cleanups)
  qed
  from general ok failed fault show ?thesis by blast
qed

text \<open>
  C2, the amended statement at concrete sessions: the four termination paths, and a session
  whose \<open>cleanup\<close> throws.
\<close>

theorem C2_cleanup_counts_witness:
  "cleanups (run ok_world
               [Message (Json (init_with [])), Message (Json (run_test_with [])),
                Message (Json close_msg), Socket_closed] new_session) = 2
   \<and> cleanups (run ok_world
               [Message (Json (init_with [])), Message (Json (run_test_with [])),
                Socket_closed] new_session) = 1
   \<and> cleanups (run compile_fail_world
               [Message (Json (init_with [])), Socket_closed] new_session) = 2
   \<and> cleanups (run prime_fault_world
               [Message (Json (init_with [])), Socket_closed] new_session) = 2
   \<and> 1 \<le> cleanups (run cleanup_fault_world
               [Message (Json (init_with [])), Socket_closed] new_session)"
proof -
  have ok: "\<forall>n. cleanup_outcome ok_world n = Resolves ()"
    and cf: "\<forall>n. cleanup_outcome compile_fail_world n = Resolves ()"
    and pf: "\<forall>n. cleanup_outcome prime_fault_world n = Resolves ()"
    by (simp_all add: ok_world_def compile_fail_world_def prime_fault_world_def)
  have tests: "\<forall>e\<in>set [Message (Json (run_test_with []))]. ongoing e"
    and none: "\<forall>e\<in>set ([] :: event list). ongoing e"
    by simp_all
  have job: "job (run cleanup_fault_world [Message (Json (init_with []))] new_session) \<noteq> None"
    by code_simp
  note a = C2_cleanup_counts [of "init_with []" ok_world demo_job
      "[Message (Json (run_test_with []))]" cleanup_fault_world "[Message (Json (init_with []))]"]
  note b = C2_cleanup_counts [of "init_with []" compile_fail_world demo_job "[]"
      cleanup_fault_world "[]"]
  note c = C2_cleanup_counts [of "init_with []" prime_fault_world demo_job "[]"
      cleanup_fault_world "[]"]
  from a ok tests job
  have "cleanups (run ok_world
               [Message (Json (init_with [])), Message (Json (run_test_with [])),
                Message (Json close_msg), Socket_closed] new_session) = 2
   \<and> cleanups (run ok_world
               [Message (Json (init_with [])), Message (Json (run_test_with [])),
                Socket_closed] new_session) = 1
   \<and> 1 \<le> cleanups (run cleanup_fault_world
               [Message (Json (init_with [])), Socket_closed] new_session)"
    by (simp add: get_job_demo_registry ok_world_def)
  moreover from b cf none
  have "cleanups (run compile_fail_world
               [Message (Json (init_with [])), Socket_closed] new_session) = 2"
    by (simp add: get_job_demo_registry compile_fail_world_def ok_world_def)
  moreover from c pf none
  have "cleanups (run prime_fault_world
               [Message (Json (init_with [])), Socket_closed] new_session) = 2"
    by (simp add: get_job_demo_registry prime_fault_world_def ok_world_def)
  ultimately show ?thesis by simp
qed

section \<open>C3: the limits of the payload at \<open>init\<close>\<close>

text \<open>
  C3 says that a per-stage limit that is supplied and is not numeric is refused. The loop
  over the limits skips every falsy value first (\<open>if (!constraint_value) continue\<close>), so
  that \<open>compile_timeout: false\<close> is taken as unset: no \<open>error\<close> is sent, the socket
  stays open and the job is made.
\<close>

theorem C3_falsy_limit_accepted:
  "job (on_message ok_world (Json (init_with [(''compile_timeout'', JBool False)])) new_session)
     \<noteq> None
   \<and> sent (on_message ok_world (Json (init_with [(''compile_timeout'', JBool False)]))
             new_session)
       = [Ready ''python'' ''3.10.0'' False, Compiled True (JNum 0) (JStr []) (JStr []) JNull]
   \<and> closes (on_message ok_world (Json (init_with [(''compile_timeout'', JBool False)]))
               new_session) = []"
  by code_simp

text \<open>
  C3 as amended: at \<open>init\<close>, for a session without a job and a runtime that the registry
  finds, a per-stage limit with a truthy value (not absent, \<open>null\<close>, \<open>false\<close>, \<open>0\<close>
  or the empty string) that is not a number, or that, the configured maximum being
  positive, exceeds it or is negative, makes the session send a single \<open>error\<close> and close
  with 4002; no job is made and none of its methods is called.
\<close>

theorem C3_bad_limit_rejected:
  assumes "job s = None"
    and "jsprop msg ''type'' = JStr ''init''"
    and "lookup_runtime w (js_string (jsprop msg ''language'')) (js_string (jsprop msg ''version''))
           = Some rt"
    and "bad_limit rt msg c t"
  shows "\<exists>m. on_message w (Json msg) s
               = ws_close 4002 ''Notified Error'' (sendMessage (Error_msg None m) s)
             \<and> sent (on_message w (Json msg) s) = sent s @ [Error_msg None m]
             \<and> closes (on_message w (Json msg) s) = closes s @ [(4002, ''Notified Error'')]
             \<and> job (on_message w (Json msg) s) = None
             \<and> calls (on_message w (Json msg) s) = calls s"
proof -
  from assms(3,4) obtain m where "get_job (lookup_runtime w) msg = Inl m"
    using get_job_bad_limit by blast
  with assms(1,2) have "on_message w (Json msg) s = notify_error m s"
    by (simp add: on_message_init handle_init_rejected)
  with assms(1) show ?thesis
    by (auto simp: notify_error_def)
qed

text \<open>
  C3, the amended statement at three payloads: a \<open>run_timeout\<close> above the configured
  3000, a negative \<open>run_cpu_time\<close>, a \<open>compile_memory_limit\<close> that is a string.
\<close>

theorem C3_bad_limit_rejected_witness:
  "(\<exists>m. sent (on_message ok_world (Json (init_with [(''run_timeout'', JNum 5000)])) new_session)
          = [Error_msg None m])
   \<and> closes (on_message ok_world (Json (init_with [(''run_timeout'', JNum 5000)])) new_session)
       = [(4002, ''Notified Error'')]
   \<and> job (on_message ok_world (Json (init_with [(''run_timeout'', JNum 5000)])) new_session)
       = None
   \<and> (\<exists>m. sent (on_message ok_world (Json (init_with [(''run_cpu_time'', JNum (- 5))]))
                new_session) = [Error_msg None m])
   \<and> (\<exists>m. sent (on_message ok_world (Json (init_with [(''compile_memory_limit'', JStr ''1g'')]))
                new_session) = [Error_msg None m])"
proof -
  have new: "job new_session = None" "sent new_session = []" "closes new_session = []"
    by simp_all
  have rt: "lookup_runtime ok_world (js_string (jsprop (init_with extra) ''language''))
              (js_string (jsprop (init_with extra) ''version'')) = Some python_rt" for extra
    by (simp add: init_with_def demo_registry_def)
  have a: "bad_limit python_rt (init_with [(''run_timeout'', JNum 5000)]) Timeout Run"
    and b: "bad_limit python_rt (init_with [(''run_cpu_time'', JNum (- 5))]) Cpu_time Run"
    and c: "bad_limit python_rt (init_with [(''compile_memory_limit'', JStr ''1g'')])
              Memory_limit Compile"
    by (simp_all add: bad_limit_def init_with_def constraint_name_def python_rt_def)
  from C3_bad_limit_rejected [OF new(1) init_with_type rt a]
    C3_bad_limit_rejected [OF new(1) init_with_type rt b]
    C3_bad_limit_rejected [OF new(1) init_with_type rt c]
  show ?thesis
    by (auto simp: new)
qed

text \<open>
  The check for a negative value comes after \<open>if (configured_limit <= 0) continue\<close>: where
  the configured limit is unbounded (\<open>-1\<close>, as for the memory here), a negative limit
  passes and the job is made. The amended statement of C3 says nothing of this case.
\<close>

lemma negative_limit_of_unbounded_accepted:
  "job (on_message ok_world (Json (init_with [(''run_memory_limit'', JNum (- 5))])) new_session)
     \<noteq> None
   \<and> closes (on_message ok_world (Json (init_with [(''run_memory_limit'', JNum (- 5))]))
               new_session) = []"
  by code_simp

section \<open>C4: commands before \<open>init\<close>\<close>

text \<open>
  C4 says that any command received before \<open>init\<close> closes the socket with 4003, nothing
  being sent before. The \<open>close\<close> case has no such test: it sends \<open>done\<close>, skips the
  cleanup (\<open>if (job)\<close>) and closes with 4999. A message of an unknown type is answered
  with an \<open>error\<close>, in any state, and the socket stays open.
\<close>

theorem C4_close_before_init:
  "sent (on_message ok_world (Json close_msg) new_session) = [Done 0 0]
   \<and> closes (on_message ok_world (Json close_msg) new_session) = [(4999, ''Session Completed'')]
   \<and> sent (on_message ok_world (Json (JObj [(''type'', JStr ''ping'')])) new_session)
       = [Error_msg None ''Unknown message type: ping'']
   \<and> closes (on_message ok_world (Json (JObj [(''type'', JStr ''ping'')])) new_session) = []"
  by code_simp

text \<open>
  C4 as amended: in a session without a job (no \<open>init\<close> has been accepted), an inbound
  \<open>run_test\<close> or \<open>run_batch\<close> closes the socket with 4003 and does nothing else:
  nothing is sent and no method of a job is called.
\<close>

theorem C4_tests_before_init:
  assumes "job s = None"
    and "jsprop msg ''type'' = JStr ''run_test'' \<or> jsprop msg ''type'' = JStr ''run_batch''"
  shows "on_message w (Json msg) s = ws_close 4003 ''Not yet initialized'' s
         \<and> sent (on_message w (Json msg) s) = sent s
         \<and> closes (on_message w (Json msg) s) = closes s @ [(4003, ''Not yet initialized'')]
         \<and> calls (on_message w (Json msg) s) = calls s"
  using assms
  by (auto simp: on_message_run_test on_message_run_batch handle_run_test_def
      handle_run_batch_def)

text \<open>C4, the amended statement for a \<open>run_test\<close> and a \<open>run_batch\<close> in a new session.\<close>

theorem C4_tests_before_init_witness:
  "sent (on_message ok_world (Json (run_test_with [])) new_session) = []
   \<and> closes (on_message ok_world (Json (run_test_with [])) new_session)
       = [(4003, ''Not yet initialized'')]
   \<and> sent (on_message ok_world (Json (run_batch_of [JObj []])) new_session) = []
   \<and> closes (on_message ok_world (Json (run_batch_of [JObj []])) new_session)
       = [(4003, ''Not yet initialized'')]"
proof -
  have new: "job new_session = None" "sent new_session = []" "closes new_session = []"
    by simp_all
  from C4_tests_before_init [OF new(1), of "run_test_with []" ok_world]
    C4_tests_before_init [OF new(1), of "run_batch_of [JObj []]" ok_world]
  show ?thesis
    by (simp add: new)
qed

section \<open>C5: the \<open>files\<close> of \<open>init\<close>\<close>

text \<open>
  C5 says that an empty list of files is refused for every runtime language. Nothing in
  \<open>get_job\<close> tests the length of \<open>files\<close>: an empty list is refused only by the test
  for a utf8 file, which the condition \<open>rt.language !== 'file'\<close> switches off. For the
  runtime \<open>file\<close> an \<open>init\<close> with \<open>files: []\<close> makes a job, which is primed and
  compiled.
\<close>

theorem C5_empty_files_for_file_runtime:
  "job (on_message ok_world (Json init_file_empty) new_session) \<noteq> None
   \<and> sent (on_message ok_world (Json init_file_empty) new_session)
       = [Ready ''file'' ''0.0.1'' False, Compiled True (JNum 0) (JStr []) (JStr []) JNull]
   \<and> closes (on_message ok_world (Json init_file_empty) new_session) = []
   \<and> calls (on_message ok_world (Json init_file_empty) new_session) = [Prime, CompileOnly 1]"
  by code_simp

text \<open>
  C5 as amended: in a session without a job, an \<open>init\<close> whose \<open>files\<close> is missing or
  is not an array is refused for every runtime language, and one whose \<open>files\<close> is the
  empty list is refused unless the registry finds a runtime of the language \<open>file\<close>: a
  single \<open>error\<close> is sent, the socket is closed with 4002, no job is made and none of
  its methods is called.
\<close>

theorem C5_files_rejected:
  assumes "job s = None"
    and "jsprop msg ''type'' = JStr ''init''"
    and "\<not> is_array (jsprop msg ''files'')
         \<or> (jsprop msg ''files'' = JArr []
            \<and> (\<forall>rt. lookup_runtime w (js_string (jsprop msg ''language''))
                       (js_string (jsprop msg ''version'')) = Some rt
                     \<longrightarrow> rt_language rt \<noteq> ''file''))"
  shows "\<exists>m. on_message w (Json msg) s
               = ws_close 4002 ''Notified Error'' (sendMessage (Error_msg None m) s)
             \<and> sent (on_message w (Json msg) s) = sent s @ [Error_msg None m]
             \<and> closes (on_message w (Json msg) s) = closes s @ [(4002, ''Notified Error'')]
             \<and> job (on_message w (Json msg) s) = None
             \<and> calls (on_message w (Json msg) s) = calls s"
proof -
  from assms(3) obtain m where "get_job (lookup_runtime w) msg = Inl m"
    using get_job_files_not_array get_job_files_empty by blast
  with assms(1,2) have "on_message w (Json msg) s = notify_error m s"
    by (simp add: on_message_init handle_init_rejected)
  with assms(1) show ?thesis
    by (auto simp: notify_error_def)
qed

text \<open>
  C5, the amended statement at three payloads: no \<open>files\<close>, \<open>files\<close> a string,
  \<open>files\<close> empty for a runtime that is not \<open>file\<close>.
\<close>

theorem C5_files_rejected_witness:
  "(\<exists>m. sent (on_message ok_world (Json init_no_files) new_session) = [Error_msg None m])
   \<and> closes (on_message ok_world (Json init_no_files) new_session) = [(4002, ''Notified Error'')]
   \<and> job (on_message ok_world (Json init_no_files) new_session) = None
   \<and> (\<exists>m. sent (on_message ok_world (Json (init_python_files (JStr ''main.py''))) new_session)
            = [Error_msg None m])
   \<and> (\<exists>m. sent (on_message ok_world (Json (init_python_files (JArr []))) new_session)
            = [Error_msg None m])"
proof -
  have new: "job new_session = None" "sent new_session = []" "closes new_session = []"
    by simp_all
  have a: "\<not> is_array (jsprop init_no_files ''files'')"
    and ta: "jsprop init_no_files ''type'' = JStr ''init''"
    by (simp_all add: init_no_files_def)
  have b: "\<not> is_array (jsprop (init_python_files (JStr ''main.py'')) ''files'')"
    and tb: "jsprop (init_python_files fs) ''type'' = JStr ''init''" for fs
    by (simp_all add: init_python_files_def)
  have c: "jsprop (init_python_files (JArr [])) ''files'' = JArr []
           \<and> (\<forall>rt. lookup_runtime ok_world
                       (js_string (jsprop (init_python_files (JArr [])) ''language''))
                       (js_string (jsprop (init_python_files (JArr [])) ''version'')) = Some rt
                     \<longrightarrow> rt_language rt \<noteq> ''file'')"
    by (auto simp: init_python_files_def demo_registry_def python_rt_def)
  from C5_files_rejected [OF new(1) ta, of ok_world] a
    C5_files_rejected [OF new(1) tb, of "JStr ''main.py''" ok_world] b
    C5_files_rejected [OF new(1) tb, of "JArr []" ok_world] c
  show ?thesis
    by (auto simp: new)
qed

section \<open>C6: the \<open>test_id\<close> of a \<open>result\<close>\<close>

text \<open>
  C6 says that a \<open>result\<close> carries the client's \<open>test_id\<close> whenever one is provided.
  The handler computes \<open>msg.test_id || testCount\<close>, so a \<open>test_id\<close> that is falsy is
  replaced by the counter: the first \<open>run_test\<close> of the session below is sent with
  \<open>test_id: 0\<close> and answered with \<open>test_id: 1\<close>.
\<close>

theorem C6_zero_test_id_replaced:
  "sent (run ok_world
           [Message (Json (init_with [])),
            Message (Json (run_test_with [(''test_id'', JNum 0)]))] new_session)
   = [Ready ''python'' ''3.10.0'' False,
      Compiled True (JNum 0) (JStr []) (JStr []) JNull,
      Result (JNum 1) (demo_test_result 10)]"
  by code_simp

text \<open>
  C6 as amended: every accepted \<open>run_test\<close> (the session has a job, the code has
  compiled, \<open>runTest\<close> resolves) is answered with a \<open>result\<close> whose \<open>test_id\<close> is the
  client's where that is truthy (\<open>0\<close>, the empty string, \<open>false\<close> and \<open>null\<close> count as
  none), and otherwise the session's counter after its increment for this test. In a
  session of an accepted \<open>init\<close> followed by \<open>run_test\<close> messages only, the counter
  stands at 0 before the first of them, so the server's ids are the positions 1, 2, 3, ...
  of the tests.
\<close>

theorem C6_test_ids:
  assumes "jsprop init ''type'' = JStr ''init''"
    and "get_job (lookup_runtime w) init = Inr j"
    and "prime_outcome w = Resolves b"
    and "compile_outcome w = Resolves r"
    and "cr_success r"
    and "\<forall>msg\<in>set tests. jsprop msg ''type'' = JStr ''run_test''"
    and "\<forall>n a1 a2 a3 a4. \<exists>tr. runTest_outcome w n a1 a2 a3 a4 = Resolves tr"
  shows "result_ids (sent (run w (Message (Json init) # map (\<lambda>msg. Message (Json msg)) tests)
                             new_session))
         = expected_test_ids 0 tests
       \<and> (\<forall>s msg tr.
            job s \<noteq> None \<and> isCompiled s \<and> jsprop msg ''type'' = JStr ''run_test''
            \<and> runTest_outcome w (length (calls s))
                 (js_or (jsprop msg ''stdin'') (JStr [])) (js_or (jsprop msg ''timeout'') JNull)
                 (js_or (jsprop msg ''cpu_time'') JNull)
                 (js_or (jsprop msg ''memory_limit'') JNull) = Resolves tr
            \<longrightarrow> sent (on_message w (Json msg) s)
                = sent s @ [Result (if truthy (jsprop msg ''test_id'') then jsprop msg ''test_id''
                                    else JNum (testCount s + 1)) tr]
              \<and> testCount (on_message w (Json msg) s) = testCount s + 1)"
proof -
  let ?s1 = "handle_init w init new_session"
  from assms(1) have first: "on_message w (Json init) new_session = ?s1"
    by (simp add: on_message_init)
  from assms(2-5) have s1: "job ?s1 \<noteq> None" "isCompiled ?s1" "testCount ?s1 = 0"
    "result_ids (sent ?s1) = []"
    by (simp_all add: handle_init_compiled compiled_msg_def split: option.split)
  from run_tests_result_ids [OF s1(1,2) assms(6,7)] s1(3,4) first
  have trace: "result_ids (sent (run w (Message (Json init) # map (\<lambda>msg. Message (Json msg)) tests)
                             new_session)) = expected_test_ids 0 tests"
    by simp
  have single: "sent (on_message w (Json msg) s)
                = sent s @ [Result (if truthy (jsprop msg ''test_id'') then jsprop msg ''test_id''
                                    else JNum (testCount s + 1)) tr]
              \<and> testCount (on_message w (Json msg) s) = testCount s + 1"
    if "job s \<noteq> None" "isCompiled s" "jsprop msg ''type'' = JStr ''run_test''"
      "runTest_outcome w (length (calls s))
                 (js_or (jsprop msg ''stdin'') (JStr [])) (js_or (jsprop msg ''timeout'') JNull)
                 (js_or (jsprop msg ''cpu_time'') JNull)
                 (js_or (jsprop msg ''memory_limit'') JNull) = Resolves tr" for s msg tr
    using that
    by (simp add: on_message_run_test handle_run_test_sent handle_run_test_accepted js_or_def)
  from trace single show ?thesis by blast
qed

text \<open>
  C6, the amended statement at a session of four tests, where the second gives the
  \<open>test_id\<close> 7 and the third an empty one.
\<close>

theorem C6_test_ids_witness:
  "result_ids (sent (run ok_world
       [Message (Json (init_with [])), Message (Json (run_test_with [])),
        Message (Json (run_test_with [(''test_id'', JNum 7)])),
        Message (Json (run_test_with [(''test_id'', JStr [])])),
        Message (Json (run_test_with []))] new_session))
   = [JNum 1, JNum 7, JNum 3, JNum 4]"
proof -
  have tests: "\<forall>msg\<in>set [run_test_with [], run_test_with [(''test_id'', JNum 7)],
                          run_test_with [(''test_id'', JStr [])], run_test_with []].
                 jsprop msg ''type'' = JStr ''run_test''"
    by simp
  have resolves: "\<forall>n a1 a2 a3 a4. \<exists>tr. runTest_outcome ok_world n a1 a2 a3 a4 = Resolves tr"
    by (simp add: ok_world_def)
  have world: "prime_outcome ok_world = Resolves 1"
    "compile_outcome ok_world = Resolves \<lparr> cr_success = True, cr_compile = None \<rparr>"
    "cr_success \<lparr> cr_success = True, cr_compile = None \<rparr>"
    by (simp_all add: ok_world_def)
  have job: "get_job (lookup_runtime ok_world) (init_with []) = Inr demo_job"
    by (simp add: get_job_demo_registry)
  from C6_test_ids [OF init_with_type job world tests resolves]
  show ?thesis
    by (simp add: run_test_with_def)
qed

section \<open>C7: a compile stage that fails\<close>

text \<open>
  C7 says that a session whose compile stage fails closes with 4006 after cleaning up the
  job. The call of \<open>cleanup\<close> that precedes \<open>ws.close(4006)\<close> stands inside the
  \<open>try\<close> of \<open>init\<close>: where it throws, the \<open>catch\<close> logs and sends the error, calls
  \<open>cleanup\<close> again and closes with 4002. In the session below the compile stage fails
  and \<open>cleanup\<close> throws: \<open>compiled\<close> with \<open>success: false\<close> is sent, and the socket
  is closed with 4002, never with 4006.
\<close>

theorem C7_cleanup_throws_closes_4002:
  "effects (run compile_cleanup_fault_world [Message (Json (init_with []))] new_session)
   = [Called Prime,
      Sent (Ready ''python'' ''3.10.0'' False),
      Called (CompileOnly 1),
      Sent (Compiled False (JNum 120) (JStr []) (JStr ''syntax error'') JNull),
      Called Cleanup,
      Logged (Log_init ''rm failed''),
      Sent (Error_msg None ''rm failed''),
      Called Cleanup,
      Sent (Error_msg None ''rm failed''),
      Closed 4002 ''Notified Error'']"
  by code_simp

text \<open>
  C7 as amended: when the compile stage fails (\<open>compileOnly\<close> resolves without success)
  at an \<open>init\<close> that \<open>get_job\<close> accepts, the session always sends \<open>ready\<close> and then
  \<open>compiled\<close> with \<open>success: false\<close> and calls \<open>cleanup\<close>. Where that call
  resolves, the session then closes with 4006 and does nothing else. Where it throws, the
  error is logged and sent to the client, \<open>cleanup\<close> is called once more (an error of
  that call being sent as well) and the session closes with 4002. Either way a \<open>run_test\<close>
  or \<open>run_batch\<close> that follows is answered with an \<open>error\<close> and is not run, and no
  sequence of later events makes the session send a \<open>result\<close> or a \<open>batch_result\<close> or
  call \<open>runTest\<close> or \<open>runBatched\<close>.
\<close>

theorem C7_compile_failure_trace:
  assumes "job s = None"
    and "jsprop init ''type'' = JStr ''init''"
    and "get_job (lookup_runtime w) init = Inr j"
    and "prime_outcome w = Resolves b"
    and "compile_outcome w = Resolves r"
    and "\<not> cr_success r"
  shows "effects (on_message w (Json init) s) =
           effects s @
           [Called Prime,
            Sent (Ready (rt_language (job_runtime j)) (rt_version_raw (job_runtime j))
                    (rt_compiled (job_runtime j))),
            Called (CompileOnly b),
            Sent (compiled_msg r),
            Called Cleanup] @
           (case cleanup_outcome w (length (calls s) + 2) of
              Resolves u \<Rightarrow> [Closed 4006 ''Compilation Failed'']
            | Throws m \<Rightarrow>
                [Logged (Log_init m), Sent (Error_msg None m), Called Cleanup] @
                (case cleanup_outcome w (length (calls s) + 3) of
                   Resolves u \<Rightarrow> []
                 | Throws m2 \<Rightarrow> [Sent (Error_msg None m2)]) @
                [Closed 4002 ''Notified Error''])
         \<and> (\<exists>t out err e. compiled_msg r = Compiled False t out err e)
         \<and> (\<forall>msg. jsprop msg ''type'' = JStr ''run_test'' \<or> jsprop msg ''type'' = JStr ''run_batch''
              \<longrightarrow> on_message w (Json msg) (on_message w (Json init) s)
                  = sendMessage (Error_msg None ''Code did not compile successfully'')
                      (on_message w (Json init) s))
         \<and> (\<forall>evs. filter is_result_msg (sent (run w evs (on_message w (Json init) s)))
                    = filter is_result_msg (sent s)
                  \<and> filter is_test_call (calls (run w evs (on_message w (Json init) s)))
                    = filter is_test_call (calls s))"
proof -
  let ?s1 = "on_message w (Json init) s"
  from assms(2) have first: "?s1 = handle_init w init s"
    by (simp add: on_message_init)
  have eff: "effects ?s1 =
           effects s @
           [Called Prime,
            Sent (Ready (rt_language (job_runtime j)) (rt_version_raw (job_runtime j))
                    (rt_compiled (job_runtime j))),
            Called (CompileOnly b),
            Sent (compiled_msg r),
            Called Cleanup] @
           (case cleanup_outcome w (length (calls s) + 2) of
              Resolves u \<Rightarrow> [Closed 4006 ''Compilation Failed'']
            | Throws m \<Rightarrow>
                [Logged (Log_init m), Sent (Error_msg None m), Called Cleanup] @
                (case cleanup_outcome w (length (calls s) + 3) of
                   Resolves u \<Rightarrow> []
                 | Throws m2 \<Rightarrow> [Sent (Error_msg None m2)]) @
                [Closed 4002 ''Notified Error''])"
    unfolding first by (rule handle_init_compile_failed_trace [OF assms(1,3-6)])
  from assms have s1: "job ?s1 \<noteq> None" "\<not> isCompiled ?s1"
    by (simp_all add: first handle_init_compile_failed_any)
  from compiled_msg_success [of r] assms(6)
  have msg: "\<exists>t out err e. compiled_msg r = Compiled False t out err e"
    by simp
  have refused: "on_message w (Json msg) ?s1
                 = sendMessage (Error_msg None ''Code did not compile successfully'') ?s1"
    if "jsprop msg ''type'' = JStr ''run_test'' \<or> jsprop msg ''type'' = JStr ''run_batch''"
    for msg
    using that s1
    by (auto simp add: on_message_run_test on_message_run_batch handle_run_test_def
        handle_run_batch_def)
  from assms have here: "filter is_result_msg (sent ?s1) = filter is_result_msg (sent s)"
    "filter is_test_call (calls ?s1) = filter is_test_call (calls s)"
    by (simp_all add: first handle_init_compile_failed_any)
  have later: "filter is_result_msg (sent (run w evs ?s1)) = filter is_result_msg (sent s)
               \<and> filter is_test_call (calls (run w evs ?s1)) = filter is_test_call (calls s)"
    for evs
    using not_compiled_run [OF s1, of w evs] here by simp
  from eff msg refused later show ?thesis by blast
qed

text \<open>
  C7, the amended statement at two sessions whose compile stage fails with a syntax error:
  one whose \<open>cleanup\<close> resolves, followed by a \<open>run_test\<close>, and one whose
  \<open>cleanup\<close> throws, followed by a \<open>run_batch\<close>.
\<close>

theorem C7_compile_failure_trace_witness:
  "effects (run compile_fail_world
              [Message (Json (init_with [])), Message (Json (run_test_with []))] new_session)
   = [Called Prime,
      Sent (Ready ''python'' ''3.10.0'' False),
      Called (CompileOnly 1),
      Sent (Compiled False (JNum 120) (JStr []) (JStr ''syntax error'') JNull),
      Called Cleanup,
      Closed 4006 ''Compilation Failed'',
      Sent (Error_msg None ''Code did not compile successfully'')]
   \<and> effects (run compile_cleanup_fault_world
              [Message (Json (init_with [])), Message (Json (run_batch_of [JObj []]))]
              new_session)
   = [Called Prime,
      Sent (Ready ''python'' ''3.10.0'' False),
      Called (CompileOnly 1),
      Sent (Compiled False (JNum 120) (JStr []) (JStr ''syntax error'') JNull),
      Called Cleanup,
      Logged (Log_init ''rm failed''),
      Sent (Error_msg None ''rm failed''),
      Called Cleanup,
      Sent (Error_msg None ''rm failed''),
      Closed 4002 ''Notified Error'',
      Sent (Error_msg None ''Code did not compile successfully'')]"
proof -
  let ?r = "\<lparr> cr_success = False,
             cr_compile = Some \<lparr> cs_wall_time = JNum 120, cs_stdout = JStr [],
                                  cs_stderr = JStr ''syntax error'', cs_message = JNull \<rparr> \<rparr>"
  let ?s1 = "on_message compile_fail_world (Json (init_with [])) new_session"
  let ?t1 = "on_message compile_cleanup_fault_world (Json (init_with [])) new_session"
  have world: "prime_outcome compile_fail_world = Resolves 1"
    "compile_outcome compile_fail_world = Resolves ?r"
    "\<not> cr_success ?r"
    and world': "prime_outcome compile_cleanup_fault_world = Resolves 1"
    "compile_outcome compile_cleanup_fault_world = Resolves ?r"
    "\<not> cr_success ?r"
    by (simp_all add: compile_cleanup_fault_world_def compile_fail_world_def ok_world_def)
  have cleanup: "cleanup_outcome compile_fail_world n = Resolves ()"
    and cleanup': "cleanup_outcome compile_cleanup_fault_world n = Throws ''rm failed''" for n
    by (simp_all add: compile_cleanup_fault_world_def compile_fail_world_def ok_world_def)
  have job: "get_job (lookup_runtime compile_fail_world) (init_with []) = Inr demo_job"
    and job': "get_job (lookup_runtime compile_cleanup_fault_world) (init_with []) = Inr demo_job"
    by (simp_all add: get_job_demo_registry compile_cleanup_fault_world_def)
  note a = C7_compile_failure_trace [OF new_session_simps(1) init_with_type job world]
  note b = C7_compile_failure_trace [OF new_session_simps(1) init_with_type job' world']
  from a have eff: "effects ?s1 =
     [Called Prime,
      Sent (Ready ''python'' ''3.10.0'' False),
      Called (CompileOnly 1),
      Sent (Compiled False (JNum 120) (JStr []) (JStr ''syntax error'') JNull),
      Called Cleanup,
      Closed 4006 ''Compilation Failed'']"
    by (simp add: cleanup compiled_msg_def js_or_def demo_job_def python_rt_def)
  from b have eff': "effects ?t1 =
     [Called Prime,
      Sent (Ready ''python'' ''3.10.0'' False),
      Called (CompileOnly 1),
      Sent (Compiled False (JNum 120) (JStr []) (JStr ''syntax error'') JNull),
      Called Cleanup,
      Logged (Log_init ''rm failed''),
      Sent (Error_msg None ''rm failed''),
      Called Cleanup,
      Sent (Error_msg None ''rm failed''),
      Closed 4002 ''Notified Error'']"
    by (simp add: cleanup' compiled_msg_def js_or_def demo_job_def python_rt_def)
  from a have "on_message compile_fail_world (Json (run_test_with [])) ?s1
      = sendMessage (Error_msg None ''Code did not compile successfully'') ?s1"
    by simp
  moreover from b have "on_message compile_cleanup_fault_world (Json (run_batch_of [JObj []])) ?t1
      = sendMessage (Error_msg None ''Code did not compile successfully'') ?t1"
    by simp
  ultimately show ?thesis using eff eff' by simp
qed

section \<open>C9: errors of \<open>cleanup\<close>\<close>

text \<open>
  C9 says that an error raised by \<open>Job.cleanup\<close> is logged only, on every termination
  path: never sent to the client, never changing the close code. In the \<open>close\<close> case
  the call of \<open>cleanup\<close> stands inside the \<open>try\<close> of the message handler, whose
  \<open>catch\<close> sends the error and closes with 4002. In the session below \<open>cleanup\<close> throws
  at \<open>close\<close>: after \<open>done\<close> the client is sent an \<open>error\<close> with the message of the
  cleanup, the socket is closed with 4002 and not with 4999, and nothing is logged.
\<close>

theorem C9_cleanup_error_reaches_client:
  "effects (run cleanup_fault_world
              [Message (Json (init_with [])), Message (Json close_msg)] new_session)
   = [Called Prime,
      Sent (Ready ''python'' ''3.10.0'' False),
      Called (CompileOnly 1),
      Sent (Compiled True (JNum 0) (JStr []) (JStr []) JNull),
      Sent (Done 0 0),
      Called Cleanup,
      Sent (Error_msg None ''rm failed''),
      Closed 4002 ''Notified Error'']"
  by code_simp

text \<open>
  C9 as amended: an error raised by \<open>Job.cleanup\<close> in the handler of the socket's
  \<open>close\<close> event is logged only: nothing is sent and \<open>ws.close\<close> is not called. An
  error raised by \<open>Job.cleanup\<close> inside the message handler is reported as any other
  error there: in the \<open>close\<close> case the client is sent \<open>done\<close>, then an \<open>error\<close>
  with the message, and the socket is closed with 4002; after a compile failure the error
  is logged as a failure of the initialisation, sent to the client as an \<open>error\<close>, and
  the socket is closed with 4002 and not 4006.
\<close>

theorem C9_cleanup_errors:
  assumes "job s \<noteq> None"
    and "cleanup_outcome w (length (calls s)) = Throws m"
  shows "effects (on_close w s) = effects s @ [Called Cleanup, Logged (Log_cleanup_on_close m)]
       \<and> sent (on_close w s) = sent s
       \<and> closes (on_close w s) = closes s
       \<and> (jsprop msg ''type'' = JStr ''close'' \<longrightarrow>
            effects (on_message w (Json msg) s) =
              effects s @ [Sent (Done (testCount s) (totalTime s)), Called Cleanup,
                           Sent (Error_msg None m), Closed 4002 ''Notified Error''])
       \<and> (\<forall>s0 init j b r m0.
            job s0 = None \<and> jsprop init ''type'' = JStr ''init''
            \<and> get_job (lookup_runtime w) init = Inr j
            \<and> prime_outcome w = Resolves b \<and> compile_outcome w = Resolves r \<and> \<not> cr_success r
            \<and> cleanup_outcome w (length (calls s0) + 2) = Throws m0 \<longrightarrow>
            closes (on_message w (Json init) s0) = closes s0 @ [(4002, ''Notified Error'')]
            \<and> Error_msg None m0 \<in> set (sent (on_message w (Json init) s0))
            \<and> logged (on_message w (Json init) s0) = logged s0 @ [Log_init m0])"
proof -
  from assms
  have "effects (on_close w s) = effects s @ [Called Cleanup, Logged (Log_cleanup_on_close m)]"
    and "sent (on_close w s) = sent s"
    and "closes (on_close w s) = closes s"
    by (auto simp add: on_close_def job_cleanup_def sent_def closes_def)
  moreover from assms
  have "effects (on_message w (Json msg) s) =
              effects s @ [Sent (Done (testCount s) (totalTime s)), Called Cleanup,
                           Sent (Error_msg None m), Closed 4002 ''Notified Error'']"
    if "jsprop msg ''type'' = JStr ''close''"
    using that by (auto simp add: on_message_close handle_close_def job_cleanup_def Let_def)
  moreover
  have "closes (on_message w (Json init) s0) = closes s0 @ [(4002, ''Notified Error'')]
            \<and> Error_msg None m0 \<in> set (sent (on_message w (Json init) s0))
            \<and> logged (on_message w (Json init) s0) = logged s0 @ [Log_init m0]"
    if "job s0 = None" "jsprop init ''type'' = JStr ''init''"
      "get_job (lookup_runtime w) init = Inr j"
      "prime_outcome w = Resolves b" "compile_outcome w = Resolves r" "\<not> cr_success r"
      "cleanup_outcome w (length (calls s0) + 2) = Throws m0" for s0 init j b r m0
    using that handle_init_cleanup_throws [of s0 w init j b r m0]
    by (simp add: on_message_init)
  ultimately show ?thesis by blast
qed

text \<open>
  C9, the amended statement at three sessions whose \<open>cleanup\<close> throws: the socket closes
  after \<open>init\<close>; the client sends \<open>close\<close>; the compile stage fails.
\<close>

theorem C9_cleanup_errors_witness:
  "effects (run cleanup_fault_world
              [Message (Json (init_with [])), Socket_closed] new_session)
   = [Called Prime,
      Sent (Ready ''python'' ''3.10.0'' False),
      Called (CompileOnly 1),
      Sent (Compiled True (JNum 0) (JStr []) (JStr []) JNull),
      Called Cleanup,
      Logged (Log_cleanup_on_close ''rm failed'')]
   \<and> effects (run cleanup_fault_world
              [Message (Json (init_with [])), Message (Json close_msg)] new_session)
   = [Called Prime,
      Sent (Ready ''python'' ''3.10.0'' False),
      Called (CompileOnly 1),
      Sent (Compiled True (JNum 0) (JStr []) (JStr []) JNull),
      Sent (Done 0 0),
      Called Cleanup,
      Sent (Error_msg None ''rm failed''),
      Closed 4002 ''Notified Error'']
   \<and> closes (run compile_cleanup_fault_world [Message (Json (init_with []))] new_session)
   = [(4002, ''Notified Error'')]
   \<and> Error_msg None ''rm failed''
       \<in> set (sent (run compile_cleanup_fault_world [Message (Json (init_with []))] new_session))"
proof -
  let ?s1 = "on_message cleanup_fault_world (Json (init_with [])) new_session"
  have s1: "effects ?s1 =
     [Called Prime,
      Sent (Ready ''python'' ''3.10.0'' False),
      Called (CompileOnly 1),
      Sent (Compiled True (JNum 0) (JStr []) (JStr []) JNull)]"
    "job ?s1 \<noteq> None" "testCount ?s1 = 0" "totalTime ?s1 = 0"
    by code_simp+
  have throws: "cleanup_outcome cleanup_fault_world (length (calls ?s1)) = Throws ''rm failed''"
    by (simp add: cleanup_fault_world_def)
  note a = C9_cleanup_errors [OF s1(2) throws, of close_msg]
  let ?w = compile_cleanup_fault_world
  let ?t = "on_message ?w (Json (init_with [])) new_session"
  have t: "job ?t \<noteq> None"
    by code_simp
  have throws': "cleanup_outcome ?w (length (calls ?t)) = Throws ''rm failed''"
    "cleanup_outcome ?w (length (calls new_session) + 2) = Throws ''rm failed''"
    by (simp_all add: compile_cleanup_fault_world_def)
  have world': "job new_session = None" "jsprop (init_with []) ''type'' = JStr ''init''"
    "get_job (lookup_runtime ?w) (init_with []) = Inr demo_job"
    "prime_outcome ?w = Resolves 1"
    "compile_outcome ?w = Resolves \<lparr> cr_success = False,
                  cr_compile = Some \<lparr> cs_wall_time = JNum 120, cs_stdout = JStr [],
                                       cs_stderr = JStr ''syntax error'', cs_message = JNull \<rparr> \<rparr>"
    "\<not> cr_success \<lparr> cr_success = False,
                  cr_compile = Some \<lparr> cs_wall_time = JNum 120, cs_stdout = JStr [],
                                       cs_stderr = JStr ''syntax error'', cs_message = JNull \<rparr> \<rparr>"
    by (simp_all add: get_job_demo_registry compile_cleanup_fault_world_def
        compile_fail_world_def ok_world_def)
  from C9_cleanup_errors [OF t throws'(1), of close_msg] world' throws'(2)
  have b: "closes ?t = [(4002, ''Notified Error'')]
           \<and> Error_msg None ''rm failed'' \<in> set (sent ?t)"
    by (metis append_Nil new_session_simps(7))
  from a b s1(1,3,4) show ?thesis by simp
qed

section \<open>C10: the arguments of \<open>runTest\<close> and \<open>runBatched\<close>\<close>



end
